theory Spec2Isabelle
  imports Complex_Main "HOL-Library.Log_Nat"
begin

section \<open>JavaScript numbers\<close>

text \<open>
  A JavaScript \<open>number\<close> is an IEEE 754 binary64 value. \<open>Num x\<close> is the finite
  double whose value is the real \<open>x\<close>; \<open>PInf\<close>, \<open>NInf\<close> and \<open>NaN\<close> are the two
  infinities and not-a-number. The two zeros are one value here, \<open>Num 0\<close>: the
  program never divides by a zero, which is the only place where their sign
  would show.
\<close>

datatype number = NaN | PInf | NInf | Num real

text \<open>
  Rounding a real to the nearest double, a tie to the even significand:
  \<open>exponent_of x\<close> is \<open>\<lfloor>log\<^sub>2 \<bar>x\<bar>\<rfloor>\<close>, the spacing of the doubles around \<open>x\<close> is
  \<open>2\<close> to the power \<open>exponent_of x - 52\<close>, and never less than \<open>2\<close> to the
  \<open>-1074\<close> (the subnormal numbers).
\<close>

definition round_half_even :: "real \<Rightarrow> int" where
  "round_half_even m =
    (let r = \<lfloor>m\<rfloor>; d = m - of_int r in
     if d < 1 / 2 then r else if 1 / 2 < d then r + 1 else if even r then r else r + 1)"

definition exponent_of :: "real \<Rightarrow> int" where
  "exponent_of x =
    (if 1 \<le> \<bar>x\<bar> then bitlen \<lfloor>\<bar>x\<bar>\<rfloor> - 1 else - bitlen (\<lceil>1 / \<bar>x\<bar>\<rceil> - 1))"

definition fl :: "real \<Rightarrow> real" where
  "fl x =
    (if x = 0 then 0
     else (let e = max (exponent_of x) (- 1022); u = 2 powi (e - 52)
           in of_int (round_half_even (x / u)) * u))"

text \<open>The double of a real: a result of magnitude \<open>2^1024\<close> is an infinity.\<close>

definition to_double :: "real \<Rightarrow> number" where
  "to_double x =
    (let y = fl x in
     if 2 ^ 1024 \<le> y then PInf else if y \<le> - (2 ^ 1024) then NInf else Num y)"

definition signed_inf :: "bool \<Rightarrow> number" where
  "signed_inf positive = (if positive then PInf else NInf)"

fun jneg :: "number \<Rightarrow> number" where
  "jneg (Num a) = Num (- a)"
| "jneg PInf = NInf"
| "jneg NInf = PInf"
| "jneg NaN = NaN"

fun jadd :: "number \<Rightarrow> number \<Rightarrow> number" where
  "jadd (Num a) (Num b) = to_double (a + b)"
| "jadd NaN _ = NaN"
| "jadd _ NaN = NaN"
| "jadd PInf NInf = NaN"
| "jadd NInf PInf = NaN"
| "jadd PInf _ = PInf"
| "jadd _ PInf = PInf"
| "jadd NInf _ = NInf"
| "jadd _ NInf = NInf"

definition jsub :: "number \<Rightarrow> number \<Rightarrow> number" where
  "jsub a b = jadd a (jneg b)"

fun jmul :: "number \<Rightarrow> number \<Rightarrow> number" where
  "jmul (Num a) (Num b) = to_double (a * b)"
| "jmul NaN _ = NaN"
| "jmul _ NaN = NaN"
| "jmul (Num a) i = (if a = 0 then NaN else signed_inf ((0 < a) = (i = PInf)))"
| "jmul i (Num b) = (if b = 0 then NaN else signed_inf ((0 < b) = (i = PInf)))"
| "jmul i j = signed_inf ((i = PInf) = (j = PInf))"

fun jdiv :: "number \<Rightarrow> number \<Rightarrow> number" where
  "jdiv (Num a) (Num b) =
    (if b = 0 then (if a = 0 then NaN else signed_inf (0 < a)) else to_double (a / b))"
| "jdiv NaN _ = NaN"
| "jdiv _ NaN = NaN"
| "jdiv (Num a) i = Num 0"
| "jdiv i (Num b) = signed_inf ((i = PInf) = (0 \<le> b))"
| "jdiv i j = NaN"

text \<open>Comparisons with \<open>NaN\<close> are false.\<close>

fun jlt :: "number \<Rightarrow> number \<Rightarrow> bool" where
  "jlt (Num a) (Num b) = (a < b)"
| "jlt NaN _ = False"
| "jlt _ NaN = False"
| "jlt NInf b = (b \<noteq> NInf)"
| "jlt a PInf = (a \<noteq> PInf)"
| "jlt _ _ = False"

fun strict_eq :: "number \<Rightarrow> number \<Rightarrow> bool" where
  "strict_eq (Num a) (Num b) = (a = b)"
| "strict_eq PInf PInf = True"
| "strict_eq NInf NInf = True"
| "strict_eq _ _ = False"

definition jgt :: "number \<Rightarrow> number \<Rightarrow> bool" where
  "jgt a b = jlt b a"

definition jle :: "number \<Rightarrow> number \<Rightarrow> bool" where
  "jle a b = (jlt a b \<or> strict_eq a b)"

subsection \<open>Strings and numbers\<close>

text \<open>
  A string is the sequence of the bytes of its UTF-8 encoding. The white space
  and the line terminators of JavaScript are six ASCII characters, U+00A0 (two
  bytes), and U+1680, U+2000 to U+200A, U+2028, U+2029, U+202F, U+205F, U+3000
  and U+FEFF (three bytes each).
\<close>

definition is_space :: "char \<Rightarrow> bool" where
  "is_space c = ((of_char c :: nat) \<in> {9, 10, 11, 12, 13, 32})"

definition wide_spaces :: "string list" where
  "wide_spaces =
    [CHR 0xE1, CHR 0x9A, CHR 0x80] # [CHR 0xE2, CHR 0x81, CHR 0x9F]
    # [CHR 0xE3, CHR 0x80, CHR 0x80] # [CHR 0xEF, CHR 0xBB, CHR 0xBF]
    # map (\<lambda>c. [CHR 0xE2, CHR 0x80, c])
        [CHR 0x80, CHR 0x81, CHR 0x82, CHR 0x83, CHR 0x84, CHR 0x85, CHR 0x86, CHR 0x87,
         CHR 0x88, CHR 0x89, CHR 0x8A, CHR 0xA8, CHR 0xA9, CHR 0xAF]"

text \<open>The number of bytes of the white space character a string begins with, or 0.\<close>

definition white_space_length :: "string \<Rightarrow> nat" where
  "white_space_length s =
    (case s of
      [] \<Rightarrow> 0
    | c # r \<Rightarrow>
        if (of_char c :: nat) < 128 then (if is_space c then 1 else 0)
        else if take 2 s = [CHR 0xC2, CHR 0xA0] then 2
        else if take 3 s \<in> set wide_spaces then 3
        else 0)"

function skip_white_space :: "string \<Rightarrow> string" where
  "skip_white_space s =
    (if white_space_length s = 0 then s
     else skip_white_space (drop (white_space_length s) s))"
  by pat_completeness auto

termination
proof (relation "measure length")
  show "wf (measure length)"
    by simp
next
  fix s :: string
  assume n: "white_space_length s \<noteq> 0"
  then have "s \<noteq> []"
    by (auto simp add: white_space_length_def)
  with n show "(drop (white_space_length s) s, s) \<in> measure length"
    by simp
qed

declare skip_white_space.simps [simp del]

definition is_digit :: "char \<Rightarrow> bool" where
  "is_digit c = (48 \<le> (of_char c :: nat) \<and> (of_char c :: nat) \<le> 57)"

definition digits_value :: "string \<Rightarrow> nat" where
  "digits_value ds = foldl (\<lambda>n c. 10 * n + ((of_char c :: nat) - 48)) 0 ds"

text \<open>
  The exponent part of a decimal literal: \<open>e\<close> or \<open>E\<close>, an optional sign and
  at least one digit; anything else is not part of the number.
\<close>

definition exponent_part :: "string \<Rightarrow> int" where
  "exponent_part r =
    (case r of
      [] \<Rightarrow> 0
    | c # r1 \<Rightarrow>
        if c = CHR ''e'' \<or> c = CHR ''E'' then
          (let neg = (case r1 of [] \<Rightarrow> False | d # _ \<Rightarrow> d = CHR ''-'');
               r2 = (case r1 of [] \<Rightarrow> []
                     | d # r' \<Rightarrow> if d = CHR ''-'' \<or> d = CHR ''+'' then r' else r1);
               ds = takeWhile is_digit r2
           in if ds = [] then 0
              else if neg then - int (digits_value ds) else int (digits_value ds))
        else 0)"

text \<open>
  \<open>parseFloat\<close>: leading white space is skipped, a sign
  is read, then \<open>Infinity\<close> or the longest prefix that is a decimal literal;
  the result is the double nearest to the decimal, and \<open>NaN\<close> for a string
  with no such prefix.
\<close>

definition parseFloat :: "string \<Rightarrow> number" where
  "parseFloat s =
    (let t = skip_white_space s;
         neg = (case t of [] \<Rightarrow> False | c # _ \<Rightarrow> c = CHR ''-'');
         u = (case t of [] \<Rightarrow> []
              | c # r \<Rightarrow> if c = CHR ''-'' \<or> c = CHR ''+'' then r else t);
         ip = takeWhile is_digit u;
         r1 = dropWhile is_digit u;
         fp = (case r1 of [] \<Rightarrow> []
               | c # r \<Rightarrow> if c = CHR ''.'' then takeWhile is_digit r else []);
         r2 = (case r1 of [] \<Rightarrow> []
               | c # r \<Rightarrow> if c = CHR ''.'' then dropWhile is_digit r else r1);
         ex = exponent_part r2;
         m = real (digits_value ip) + real (digits_value fp) / 10 ^ length fp;
         scaled = (if 0 \<le> ex then m * 10 ^ nat ex else m / 10 ^ nat (- ex))
     in if take 8 u = ''Infinity'' then signed_inf (\<not> neg)
        else if ip = [] \<and> fp = [] then NaN
        else to_double (if neg then - scaled else scaled))"

definition digit_char :: "nat \<Rightarrow> char" where
  "digit_char d = ''0123456789'' ! d"

fun digits_of :: "nat \<Rightarrow> string" where
  "digits_of n =
    (if n < 10 then [digit_char n]
     else digits_of (n div 10) @ [digit_char (n mod 10)])"

declare digits_of.simps [simp del]

text \<open>
  \<open>x.toFixed(d)\<close>: the decimal numeral with \<open>d\<close> digits after the point that
  is nearest to the value of the double \<open>x\<close>, the larger of two equally near.
  (From \<open>10^21\<close> on JavaScript prints the number with an exponent instead;
  that form is not modelled: the amounts the hook prints are at most 10000.)
\<close>

definition toFixed :: "nat \<Rightarrow> number \<Rightarrow> string" where
  "toFixed d y =
    (case y of
      NaN \<Rightarrow> ''NaN''
    | PInf \<Rightarrow> ''Infinity''
    | NInf \<Rightarrow> ''-Infinity''
    | Num x \<Rightarrow>
        (let n = nat (round (\<bar>x\<bar> * 10 ^ d));
             ds = digits_of n;
             padded = replicate (Suc d - length ds) CHR ''0'' @ ds;
             k = length padded - d
         in (if x < 0 then ''-'' else [])
            @ take k padded
            @ (if d = 0 then [] else CHR ''.'' # drop k padded)))"

text \<open>
  \<open>toLowerCase\<close>, as far as a search for ASCII words can tell: the ASCII
  capitals, and the two other characters whose lower case has an ASCII letter,
  the Kelvin sign U+212A (\<open>k\<close>) and U+0130 (\<open>i\<close> and the combining dot
  U+0307). Any other character is left as it is: its lower case is not ASCII
  either.
\<close>

definition lower_ascii :: "char \<Rightarrow> char" where
  "lower_ascii c =
    (if 65 \<le> (of_char c :: nat) \<and> (of_char c :: nat) \<le> 90
     then char_of ((of_char c :: nat) + 32) else c)"

fun toLowerCase :: "string \<Rightarrow> string" where
  "toLowerCase [] = []"
| "toLowerCase (c # s) =
    (if c = CHR 0xE2 \<and> take 2 s = [CHR 0x84, CHR 0xAA]
       then CHR ''k'' # toLowerCase (drop 2 s)
     else if c = CHR 0xC4 \<and> take 1 s = [CHR 0xB0]
       then [CHR ''i'', CHR 0xCC, CHR 0x87] @ toLowerCase (drop 1 s)
     else lower_ascii c # toLowerCase s)"

text \<open>\<open>s.includes(p)\<close>: \<open>p\<close> occurs in \<open>s\<close> as a contiguous substring.\<close>

fun includes_str :: "string \<Rightarrow> string \<Rightarrow> bool" where
  "includes_str [] p = (p = [])"
| "includes_str (c # cs) p = (take (length p) (c # cs) = p \<or> includes_str cs p)"

text \<open>\<open>b || '0'\<close> for a string that may be undefined: the empty string is falsy.\<close>

definition or_zero :: "string option \<Rightarrow> string" where
  "or_zero b = (case b of None \<Rightarrow> ''0'' | Some t \<Rightarrow> if t = [] then ''0'' else t)"

section \<open>types/index.ts and config/constants.ts\<close>

record Token =
  address :: string
  symbol :: string
  name :: string
  decimals :: nat
  image :: "string option"
  balance :: "string option"
  fiatValue :: "string option"

record DCAConfig =
  sourceToken :: Token
  targetToken :: Token
  frequency :: int
  percentage :: real
  isActive :: bool
  nextSwapIn :: int

text \<open>
  \<open>SwapResult\<close>, with the three fields the swap service adds to the object
  literals it returns (\<open>isReal\<close>, \<open>isEnhancedSimulation\<close> and \<open>note\<close>, here \<open>note_s\<close>).
\<close>

record SwapResult =
  success :: bool
  txHash :: "string option"
  error :: "string option"
  amountIn :: string
  amountOut :: string
  price :: "string option"
  isReal :: "bool option"
  isEnhancedSimulation :: "bool option"
  note_s :: "string option"

datatype FrequencyTier = Days | Hours | Minutes | Seconds

text \<open>\<open>SliderTier\<close>: the fields \<open>min\<close> and \<open>max\<close> are in seconds.\<close>

record SliderTier =
  tier :: FrequencyTier
  min_s :: real
  max_s :: real
  label :: string

definition usdc_logo :: string where
  "usdc_logo = ''https://images.ctfassets.net/q5ulk4bp65r7/3O9sjrr3HBZN74XICN6E6E/89b2b2f1e2e7f05c33b7adcb3d8b3e7d/USDC_Logo.svg''"

definition BASE_TOKENS :: "Token list" where
  "BASE_TOKENS =
    [\<lparr>address = ''0x833589fCD6eDb6E08f4c7C32D4f71b54bdA02913'', symbol = ''USDC'',
      name = ''USD Coin'', decimals = 6, image = Some usdc_logo,
      balance = None, fiatValue = None\<rparr>,
     \<lparr>address = ''0x4200000000000000000000000000000000000006'', symbol = ''ETH'',
      name = ''Ethereum'', decimals = 18,
      image = Some ''https://assets.coingecko.com/coins/images/279/large/ethereum.png'',
      balance = None, fiatValue = None\<rparr>,
     \<lparr>address = ''0x50c5725949A6F0c72E6C4a641F24049A917DB0Cb'', symbol = ''DAI'',
      name = ''Dai Stablecoin'', decimals = 18,
      image = Some ''https://assets.coingecko.com/coins/images/9956/large/Badge_Dai.png'',
      balance = None, fiatValue = None\<rparr>,
     \<lparr>address = ''0xd9aAEc86B65D86f6A7B5B1b0c42FFA531710b6CA'', symbol = ''USDbC'',
      name = ''USD Base Coin'', decimals = 6, image = Some usdc_logo,
      balance = None, fiatValue = None\<rparr>]"

definition SLIDER_TIERS :: "SliderTier list" where
  "SLIDER_TIERS =
    [\<lparr>tier = Days, min_s = 86400, max_s = 2592000, label = ''Days''\<rparr>,
     \<lparr>tier = Hours, min_s = 3600, max_s = 86400, label = ''Hours''\<rparr>,
     \<lparr>tier = Minutes, min_s = 60, max_s = 3600, label = ''Minutes''\<rparr>,
     \<lparr>tier = Seconds, min_s = 1, max_s = 60, label = ''Seconds''\<rparr>]"

definition DEFAULT_SOURCE_TOKEN :: Token where
  "DEFAULT_SOURCE_TOKEN = BASE_TOKENS ! 0"

definition DEFAULT_TARGET_TOKEN :: Token where
  "DEFAULT_TARGET_TOKEN = BASE_TOKENS ! 1"

section \<open>hooks/useDCA.ts: the frequency mapper\<close>

text \<open>
  The local variable \<open>frequency\<close> of \<open>calculateFrequency\<close>, in seconds: each
  operation gives the double nearest to its exact result. The value is a finite
  double (the slider gives values between 0 and 100; below a magnitude of
  \<open>10^300\<close> no operation overflows).
\<close>

definition frequency_seconds :: "real \<Rightarrow> SliderTier \<Rightarrow> real" where
  "frequency_seconds val tierConfig =
    (let normalizedValue = fl (val / 100);
         range = fl (max_s tierConfig - min_s tierConfig)
     in fl (min_s tierConfig + fl (range * fl (1 - normalizedValue))))"

text \<open>
  \<open>Math.round\<close> gives the nearest integer, a tie upwards: it is
  \<open>\<lfloor>x + 1/2\<rfloor>\<close>, which is \<^const>\<open>round\<close>.
\<close>

definition calculateFrequency :: "real \<Rightarrow> FrequencyTier \<Rightarrow> int" where
  "calculateFrequency val t =
    (case find (\<lambda>c. tier c = t) SLIDER_TIERS of
      None \<Rightarrow> 3600000
    | Some tierConfig \<Rightarrow> round (fl (frequency_seconds val tierConfig * 1000)))"

text \<open>
  The reading of the specification's sentence "rounded to the nearest integer
  second then converted to milliseconds", to compare with the code.
\<close>

definition frequency_rounded_to_seconds :: "real \<Rightarrow> FrequencyTier \<Rightarrow> int" where
  "frequency_rounded_to_seconds val t =
    (case find (\<lambda>c. tier c = t) SLIDER_TIERS of
      None \<Rightarrow> 3600000
    | Some tierConfig \<Rightarrow> round (frequency_seconds val tierConfig) * 1000)"

section \<open>services/realSwapService.ts\<close>

definition TOKEN_ADDRESSES :: "(string \<times> string) list" where
  "TOKEN_ADDRESSES =
    [(''USDC'', ''0x833589fCD6eDb6E08f4c7C32D4f71b54bdA02913''),
     (''ETH'', ''0x4200000000000000000000000000000000000006''),
     (''DAI'', ''0x50c5725949A6F0c72E6C4a641F24049A917DB0Cb''),
     (''USDbC'', ''0xd9aAEc86B65D86f6A7B5B1b0c42FFA531710b6CA'')]"

text \<open>
  \<open>TOKEN_ADDRESSES\<close> and \<open>fallbackPrices\<close> are object literals: reading a
  key they do not have gives the property of that name of \<open>Object.prototype\<close>
  when there is one (a function or an object, which is truthy), and
  \<open>undefined\<close> otherwise.
\<close>

definition Object_prototype_properties :: "string list" where
  "Object_prototype_properties =
    [''constructor'', ''hasOwnProperty'', ''isPrototypeOf'', ''propertyIsEnumerable'',
     ''toLocaleString'', ''toString'', ''valueOf'', ''__proto__'',
     ''__defineGetter__'', ''__defineSetter__'', ''__lookupGetter__'', ''__lookupSetter__'']"

text \<open>\<open>TOKEN_ADDRESSES[s]\<close> is truthy.\<close>

definition has_token_address :: "string \<Rightarrow> bool" where
  "has_token_address s =
    (map_of TOKEN_ADDRESSES s \<noteq> None \<or> s \<in> set Object_prototype_properties)"

text \<open>
  What a \<open>catch\<close> clause receives: an \<open>Error\<close> object with its message, or a
  value that is not an instance of \<open>Error\<close>.
\<close>

datatype thrown = Error string | NonError

text \<open>
  What \<open>getTokenPrice\<close> returns: a number or, for a symbol that names a
  property of \<open>Object.prototype\<close>, that property. In arithmetic the latter
  counts as \<open>NaN\<close>.
\<close>

datatype price = Price number | Inherited

definition price_number :: "price \<Rightarrow> number" where
  "price_number p = (case p of Price n \<Rightarrow> n | Inherited \<Rightarrow> NaN)"

definition fallbackPrices :: "(string \<times> real) list" where
  "fallbackPrices = [(''ETH'', 2500), (''USDC'', 1), (''DAI'', 1), (''USDbC'', 1)]"

text \<open>
  \<open>getTokenPrice\<close>. Its second argument is what the price service answers:
  \<open>Some p\<close> when the request succeeds and the field \<open>usd\<close> of the answer is the
  number \<open>p\<close>, \<open>None\<close> when the request throws, the status is not ok, the body
  cannot be parsed or the field is missing or not a number. Every failure, and
  a price that is 0 or \<open>NaN\<close>, ends in the \<open>catch\<close> clause, which returns the
  fallback price: \<open>getTokenPrice\<close> never throws.
\<close>

definition getTokenPrice :: "string \<Rightarrow> number option \<Rightarrow> price" where
  "getTokenPrice tokenSymbol fetched =
    (let fallback =
       (case map_of fallbackPrices tokenSymbol of
         Some q \<Rightarrow> Price (Num q)
       | None \<Rightarrow> if tokenSymbol \<in> set Object_prototype_properties then Inherited
                  else Price (Num 1))
     in case fetched of
          None \<Rightarrow> fallback
        | Some p \<Rightarrow> if p = NaN \<or> p = Num 0 then fallback else Price p)"

text \<open>
  The collaborators of \<open>executeRealSwap\<close>: the answers of the price service for
  the two tokens, and the library and the wallet (\<open>parseUnits\<close>,
  \<open>encodeFunctionData\<close>, \<open>sendTransaction\<close>), which are given the amount to
  swap and the least amount to receive as the strings the code passes to
  \<open>parseUnits\<close>, and throw or yield the transaction hash.
\<close>

record swap_io =
  io_fromFetch :: "number option"
  io_toFetch :: "number option"
  io_submit :: "string \<Rightarrow> string \<Rightarrow> thrown + string"

text \<open>
  The same for \<open>enhancedSimulation\<close>: the answer of the price service and the
  three draws of \<open>Math.random()\<close>, doubles in \<open>[0, 1)\<close> (the last one already
  printed in base 16).
\<close>

record sim_io =
  sim_fetch :: "number option"
  sim_random_success :: real
  sim_random_slippage :: real
  sim_random_hash :: string

text \<open>The emoji of the notes, as their UTF-8 bytes.\<close>

definition check_mark :: string where
  "check_mark = [CHR 0xE2, CHR 0x9C, CHR 0x85]"

definition masks :: string where
  "masks = [CHR 0xF0, CHR 0x9F, CHR 0x8E, CHR 0xAD]"

text \<open>
  The \<open>try\<close> block of \<open>executeRealSwap\<close>: the error thrown, or the result
  returned. (With an inherited price the library is given \<open>NaN\<close> and throws; were
  it to return, \<open>toPrice.toFixed\<close> would be no function.)
\<close>

definition executeRealSwap_try ::
    "Token \<Rightarrow> Token \<Rightarrow> string \<Rightarrow> string \<Rightarrow> swap_io \<Rightarrow> thrown + SwapResult" where
  "executeRealSwap_try srcToken tgtToken amountInUSD userAddress io =
    (let amountNum = parseFloat amountInUSD in
     if jle amountNum (Num 0) then Inl (Error ''Invalid swap amount'')
     else if \<not> has_token_address (symbol srcToken) \<or> \<not> has_token_address (symbol tgtToken)
       then Inl (Error (''Unsupported token pair: '' @ symbol srcToken @ '' -> ''
                        @ symbol tgtToken))
     else
       (let fromPrice = getTokenPrice (symbol srcToken) (io_fromFetch io);
            toPrice = getTokenPrice (symbol tgtToken) (io_toFetch io);
            fromTokenAmount =
              (if symbol srcToken = ''USDC'' \<or> symbol srcToken = ''DAI'' then amountInUSD
               else toFixed 18 (jdiv amountNum (price_number fromPrice)));
            expectedToAmount = jdiv amountNum (price_number toPrice);
            minToAmount = jmul expectedToAmount (to_double (99 / 100))
        in case io_submit io fromTokenAmount (toFixed 18 minToAmount) of
             Inl e \<Rightarrow> Inl e
           | Inr hash \<Rightarrow>
               (case toPrice of
                 Inherited \<Rightarrow> Inl (Error ''toPrice.toFixed is not a function'')
               | Price p \<Rightarrow>
                   Inr \<lparr>success = True, txHash = Some hash, error = None,
                        amountIn = amountInUSD,
                        amountOut = toFixed 6 expectedToAmount,
                        price = Some (toFixed 2 p),
                        isReal = Some True, isEnhancedSimulation = None,
                        note_s = Some (check_mark @
                          '' Invisible swap executed via smart wallet + Aerodrome DEX'')\<rparr>)))"

text \<open>The classification of the error at the head of the \<open>catch\<close> block.\<close>

definition errorMessage :: "thrown \<Rightarrow> string" where
  "errorMessage e =
    (case e of
      NonError \<Rightarrow> ''Swap failed''
    | Error message \<Rightarrow>
        (let msg = toLowerCase message in
         if includes_str msg ''insufficient'' then ''Insufficient balance or liquidity''
         else if includes_str msg ''user rejected'' \<or> includes_str msg ''user denied''
           then ''Transaction rejected - please reconnect wallet''
         else if includes_str msg ''network'' \<or> includes_str msg ''fetch''
           then ''Network error, please try again''
         else message))"

text \<open>
  \<open>enhancedSimulation\<close>. Its \<open>catch\<close> clause throws again what the \<open>try\<close>
  block throws, but nothing in the block does: \<open>getTokenPrice\<close> never throws,
  and the rest is arithmetic and printing. So it always returns.
\<close>

definition enhancedSimulation ::
    "sim_io \<Rightarrow> Token \<Rightarrow> Token \<Rightarrow> number \<Rightarrow> thrown + SwapResult" where
  "enhancedSimulation sio srcToken tgtToken amountUSD =
    (let targetPrice = getTokenPrice (symbol tgtToken) (sim_fetch sio);
         isSuccess = jgt (Num (sim_random_success sio)) (to_double (5 / 100))
     in if \<not> isSuccess then
          Inr \<lparr>success = False, txHash = None, error = Some ''Simulated network congestion'',
               amountIn = toFixed 2 amountUSD, amountOut = ''0'', price = None,
               isReal = None, isEnhancedSimulation = None, note_s = None\<rparr>
        else
          (let slippage = jadd (to_double (1 / 1000))
                 (jmul (Num (sim_random_slippage sio)) (to_double (2 / 1000)));
               effectivePrice = jmul (price_number targetPrice) (jsub (Num 1) slippage);
               amountOut' = toFixed 6 (jdiv amountUSD effectivePrice)
           in Inr \<lparr>success = True,
                   txHash = Some (''0x'' @ take 64 (drop 2 (sim_random_hash sio))),
                   error = None,
                   amountIn = toFixed 2 amountUSD, amountOut = amountOut',
                   price = Some (toFixed 2 effectivePrice),
                   isReal = Some False, isEnhancedSimulation = Some True,
                   note_s = Some (masks @
                     '' Enhanced simulation - real swap infrastructure ready'')\<rparr>))"

definition executeRealSwap ::
    "Token \<Rightarrow> Token \<Rightarrow> string \<Rightarrow> string \<Rightarrow> swap_io \<Rightarrow> sim_io \<Rightarrow> SwapResult" where
  "executeRealSwap srcToken tgtToken amountInUSD userAddress io sio =
    (case executeRealSwap_try srcToken tgtToken amountInUSD userAddress io of
      Inr result \<Rightarrow> result
    | Inl e \<Rightarrow>
        (let errorMessage' = errorMessage e in
         case enhancedSimulation sio srcToken tgtToken (parseFloat amountInUSD) of
           Inr simulationResult \<Rightarrow>
             simulationResult\<lparr>note_s := Some (''Smart wallet swap failed: '' @ errorMessage'
                                              @ ''. Showing simulation.'')\<rparr>
         | Inl simError \<Rightarrow>
             \<lparr>success = False, txHash = None, error = Some errorMessage',
              amountIn = amountInUSD, amountOut = ''0'', price = None,
              isReal = None, isEnhancedSimulation = None, note_s = None\<rparr>))"

record validation =
  valid :: bool
  valid_error :: "string option"

definition validateRealSwap :: "Token \<Rightarrow> Token \<Rightarrow> number \<Rightarrow> string \<Rightarrow> validation" where
  "validateRealSwap srcToken tgtToken amountUSD userBalance =
    (if jlt amountUSD (to_double (1 / 100)) then
       \<lparr>valid = False, valid_error = Some ''Minimum swap amount is $0.01''\<rparr>
     else if jgt amountUSD (Num 10000) then
       \<lparr>valid = False, valid_error = Some ''Maximum swap amount is $10,000''\<rparr>
     else if address srcToken = address tgtToken then
       \<lparr>valid = False, valid_error = Some ''Cannot swap token with itself''\<rparr>
     else
       (let balance' = parseFloat (or_zero (Some userBalance)) in
        if jlt balance' amountUSD then
          \<lparr>valid = False,
           valid_error = Some (''Insufficient balance. Have: $'' @ toFixed 2 balance'
                               @ '', Need: $'' @ toFixed 2 amountUSD)\<rparr>
        else \<lparr>valid = True, valid_error = None\<rparr>))"

section \<open>hooks/useDCA.ts: the state of the hook\<close>

text \<open>
  A callback made by \<open>useCallback\<close> reads the state variables of the render that
  made it. \<open>closure\<close> holds the values \<open>executeSingleSwap\<close> and \<open>startDCA\<close>
  capture: \<open>config\<close>, the wallet's \<open>balance\<close>, \<open>isExecutingSwap\<close>,
  \<open>address\<close>, and whether \<open>sendTransaction\<close> is there. \<open>startDCA\<close> lists
  \<open>executeSingleSwap\<close> among its dependencies, so both are of the same render.
\<close>

record closure =
  c_config :: DCAConfig
  c_balance :: "string option"
  c_isExecutingSwap :: bool
  c_address :: "string option"
  c_sendTransaction :: bool

text \<open>The arguments of one call of \<open>executeRealSwap\<close>.\<close>

record swap_request =
  rq_sourceToken :: Token
  rq_targetToken :: Token
  rq_amountInUSD :: string
  rq_userAddress :: string

text \<open>The callback of a \<open>setInterval\<close>: the countdown tick, or \<open>runSwap\<close>.\<close>

datatype callback = CountdownTick | RunSwap closure

text \<open>Who awaits a call of \<open>executeSingleSwap\<close>: \<open>runSwap\<close>, or a caller of \<open>executeSwap\<close>.\<close>

datatype caller = FromRunSwap | FromExecuteSwap

text \<open>
  The state: the six \<open>useState\<close> variables and the two refs of the hook, and what
  the host holds for it: the live intervals (identifier, period, callback; the
  identifiers count from 1), the calls of \<open>executeSingleSwap\<close> suspended at
  \<open>await executeRealSwap(...)\<close>, and the number of pending
  \<open>setTimeout(refreshBalance, 2000)\<close>.
\<close>

record hook =
  config :: DCAConfig
  currentTier :: FrequencyTier
  sliderValue :: real
  swapHistory :: "SwapResult list"
  totalSwapped :: number
  isExecutingSwap :: bool
  intervalRef :: "nat option"
  countdownRef :: "nat option"
  intervals :: "(nat \<times> int \<times> callback) list"
  nextTimerId :: nat
  inFlight :: "(caller \<times> swap_request) list"
  refreshTimeouts :: nat

text \<open>The wallet, as \<open>useWallet\<close>, \<open>useAccount\<close> and \<open>useSendTransaction\<close> give it.\<close>

record wallet =
  w_balance :: "string option"
  w_address :: "string option"
  w_sendTransaction :: bool

definition render :: "wallet \<Rightarrow> hook \<Rightarrow> closure" where
  "render w s =
    \<lparr>c_config = config s, c_balance = w_balance w, c_isExecutingSwap = isExecutingSwap s,
     c_address = w_address w, c_sendTransaction = w_sendTransaction w\<rparr>"

definition initial_hook :: hook where
  "initial_hook =
    \<lparr>config = \<lparr>sourceToken = DEFAULT_SOURCE_TOKEN, targetToken = DEFAULT_TARGET_TOKEN,
               frequency = 3600000, percentage = 1, isActive = False, nextSwapIn = 0\<rparr>,
     currentTier = Hours, sliderValue = 50, swapHistory = [], totalSwapped = Num 0,
     isExecutingSwap = False, intervalRef = None, countdownRef = None,
     intervals = [], nextTimerId = 1, inFlight = [], refreshTimeouts = 0\<rparr>"

definition setInterval :: "callback \<Rightarrow> int \<Rightarrow> hook \<Rightarrow> nat \<times> hook" where
  "setInterval cb ms s =
    (nextTimerId s,
     s\<lparr>intervals := intervals s @ [(nextTimerId s, ms, cb)],
       nextTimerId := Suc (nextTimerId s)\<rparr>)"

definition clearInterval :: "nat \<Rightarrow> hook \<Rightarrow> hook" where
  "clearInterval i s = s\<lparr>intervals := filter (\<lambda>t. fst t \<noteq> i) (intervals s)\<rparr>"

section \<open>hooks/useDCA.ts: the callbacks\<close>

definition handleOnchainKitSwap :: "SwapResult \<Rightarrow> hook \<Rightarrow> hook" where
  "handleOnchainKitSwap result s =
    (let s1 = s\<lparr>swapHistory := result # take 9 (swapHistory s)\<rparr> in
     if success result
     then s1\<lparr>totalSwapped := jadd (totalSwapped s1) (parseFloat (amountIn result))\<rparr>
     else s1)"

text \<open>
  The effect on \<open>[sliderValue, currentTier]\<close>: it runs at the first render and
  after a render in which one of the two has changed.
\<close>

definition frequency_effect :: "hook \<Rightarrow> hook" where
  "frequency_effect s =
    (let newFrequency = calculateFrequency (sliderValue s) (currentTier s) in
     s\<lparr>config := (config s)\<lparr>frequency := newFrequency,
          nextSwapIn := (if isActive (config s) then newFrequency else 0)\<rparr>\<rparr>)"

definition mounted_hook :: hook where
  "mounted_hook = frequency_effect initial_hook"

definition handleSliderChange :: "real \<Rightarrow> hook \<Rightarrow> hook" where
  "handleSliderChange v s =
    (if sliderValue s = v then s else frequency_effect (s\<lparr>sliderValue := v\<rparr>))"

definition handleTierChange :: "FrequencyTier \<Rightarrow> hook \<Rightarrow> hook" where
  "handleTierChange newTier s =
    (if currentTier s = newTier \<and> sliderValue s = 50 then s
     else frequency_effect (s\<lparr>currentTier := newTier, sliderValue := 50\<rparr>))"

text \<open>The object literal of the failures \<open>executeSingleSwap\<close> makes itself.\<close>

definition failed_swap :: "string \<Rightarrow> SwapResult" where
  "failed_swap msg =
    \<lparr>success = False, txHash = None, error = Some msg, amountIn = ''0'', amountOut = ''0'',
     price = None, isReal = None, isEnhancedSimulation = None, note_s = None\<rparr>"

text \<open>
  The \<open>try\<close> block of \<open>executeSingleSwap\<close> up to its \<open>await\<close>: the message of
  the error it throws, or the call of \<open>executeRealSwap\<close> it makes. (It is entered
  only with an address; the case \<open>None\<close> below is never taken.)
\<close>

definition executeSingleSwap_try :: "closure \<Rightarrow> string + swap_request" where
  "executeSingleSwap_try c =
    (let currentBalance = parseFloat (or_zero (c_balance c)) in
     if strict_eq currentBalance (Num 0) then Inl ''Insufficient balance''
     else
       (let swapAmount = jmul currentBalance
              (jdiv (Num (percentage (c_config c))) (Num 100)) in
        if jlt swapAmount (to_double (1 / 100))
        then Inl ''Swap amount too small (minimum $0.01 for reliable execution)''
        else
          (let validation = validateRealSwap (sourceToken (c_config c))
                 (targetToken (c_config c)) swapAmount (or_zero (c_balance c)) in
           if \<not> valid validation
           then Inl (case valid_error validation of None \<Rightarrow> [] | Some m \<Rightarrow> m)
           else Inr \<lparr>rq_sourceToken = sourceToken (c_config c),
                     rq_targetToken = targetToken (c_config c),
                     rq_amountInUSD = toFixed 2 swapAmount,
                     rq_userAddress = (case c_address c of None \<Rightarrow> [] | Some a \<Rightarrow> a)\<rparr>)))"

text \<open>
  A call of \<open>executeSingleSwap\<close> either returns at once or stops at the
  \<open>await\<close> with a call of \<open>executeRealSwap\<close> outstanding.
\<close>

datatype attempt = Returned SwapResult | Awaiting swap_request

definition executeSingleSwap_begin :: "closure \<Rightarrow> hook \<Rightarrow> attempt \<times> hook" where
  "executeSingleSwap_begin c s =
    (if c_isExecutingSwap c then (Returned (failed_swap ''Swap already in progress''), s)
     else if c_address c = None \<or> c_address c = Some [] \<or> \<not> c_sendTransaction c
       then (Returned (failed_swap ''Wallet not connected or transaction function unavailable''), s)
     else
       (let s1 = s\<lparr>isExecutingSwap := True\<rparr> in
        case executeSingleSwap_try c of
          Inl message \<Rightarrow>
            (let errorResult = failed_swap message in
             (Returned errorResult, (handleOnchainKitSwap errorResult s1)\<lparr>isExecutingSwap := False\<rparr>))
        | Inr rq \<Rightarrow> (Awaiting rq, s1)))"

text \<open>
  The rest of \<open>executeSingleSwap\<close>, run when the awaited call settles: with the
  result, or with what it threw.
\<close>

definition executeSingleSwap_resume :: "thrown + SwapResult \<Rightarrow> hook \<Rightarrow> SwapResult \<times> hook" where
  "executeSingleSwap_resume settled s =
    (case settled of
      Inr result \<Rightarrow>
        (let s1 = handleOnchainKitSwap result s;
             s2 = (if success result then s1\<lparr>refreshTimeouts := Suc (refreshTimeouts s1)\<rparr> else s1)
         in (result, s2\<lparr>isExecutingSwap := False\<rparr>))
    | Inl e \<Rightarrow>
        (let errorResult = failed_swap (case e of Error message \<Rightarrow> message
                                         | NonError \<Rightarrow> ''Network error'')
         in (errorResult, (handleOnchainKitSwap errorResult s)\<lparr>isExecutingSwap := False\<rparr>)))"

definition countdown_tick :: "hook \<Rightarrow> hook" where
  "countdown_tick s = s\<lparr>config := (config s)\<lparr>nextSwapIn := max 0 (nextSwapIn (config s) - 100)\<rparr>\<rparr>"

definition startCountdown :: "hook \<Rightarrow> hook" where
  "startCountdown s =
    (let s1 = (case countdownRef s of None \<Rightarrow> s | Some i \<Rightarrow> clearInterval i s);
         (i, s2) = setInterval CountdownTick 100 s1
     in s2\<lparr>countdownRef := Some i\<rparr>)"

text \<open>The statement of \<open>runSwap\<close> after its \<open>await\<close>.\<close>

definition runSwap_finish :: "hook \<Rightarrow> hook" where
  "runSwap_finish s = s\<lparr>config := (config s)\<lparr>nextSwapIn := frequency (config s)\<rparr>\<rparr>"

definition runSwap :: "closure \<Rightarrow> hook \<Rightarrow> hook" where
  "runSwap c s =
    (case executeSingleSwap_begin c s of
      (Returned r, s1) \<Rightarrow> runSwap_finish s1
    | (Awaiting rq, s1) \<Rightarrow> s1\<lparr>inFlight := inFlight s1 @ [(FromRunSwap, rq)]\<rparr>)"

definition startDCA :: "closure \<Rightarrow> hook \<Rightarrow> hook" where
  "startDCA c s =
    (if isActive (c_config c) then s
     else
       (let currentBalance = parseFloat (or_zero (c_balance c)) in
        if strict_eq currentBalance (Num 0) then s
        else
          (let s1 = s\<lparr>config := (config s)\<lparr>isActive := True,
                         nextSwapIn := frequency (config s)\<rparr>\<rparr>;
               s2 = startCountdown s1;
               (i, s3) = setInterval (RunSwap c) (frequency (c_config c)) s2
           in s3\<lparr>intervalRef := Some i\<rparr>)))"

definition stopDCA :: "hook \<Rightarrow> hook" where
  "stopDCA s =
    (let s1 = s\<lparr>config := (config s)\<lparr>isActive := False, nextSwapIn := 0\<rparr>\<rparr>;
         s2 = (case intervalRef s1 of None \<Rightarrow> s1
               | Some i \<Rightarrow> (clearInterval i s1)\<lparr>intervalRef := None\<rparr>);
         s3 = (case countdownRef s2 of None \<Rightarrow> s2
               | Some i \<Rightarrow> (clearInterval i s2)\<lparr>countdownRef := None\<rparr>)
     in s3)"

definition updateTokens :: "Token \<Rightarrow> Token \<Rightarrow> hook \<Rightarrow> hook" where
  "updateTokens src tgt s = s\<lparr>config := (config s)\<lparr>sourceToken := src, targetToken := tgt\<rparr>\<rparr>"

definition swapTokens :: "hook \<Rightarrow> hook" where
  "swapTokens s =
    s\<lparr>config := (config s)\<lparr>sourceToken := targetToken (config s),
                              targetToken := sourceToken (config s)\<rparr>\<rparr>"

section \<open>The hook in its host\<close>

text \<open>
  What can happen to a mounted hook, one event at a time (the host runs one
  callback to its end, or to its \<open>await\<close>, before the next one): the user calls
  \<open>startDCA\<close>, \<open>stopDCA\<close>, \<open>executeSwap\<close>, \<open>swapTokens\<close>, \<open>updateTokens\<close>,
  \<open>handleSliderChange\<close> or \<open>handleTierChange\<close> of the latest render; a component
  reports a result to \<open>handleOnchainKitSwap\<close>; the interval with a given identifier
  fires; the \<open>k\<close>-th outstanding call of \<open>executeRealSwap\<close> settles.
\<close>

datatype event =
    Start | Stop | ExecuteSwap | SwapTokens | UpdateTokens Token Token
  | SliderChange real | TierChange FrequencyTier | Report SwapResult
  | Fire nat | Settle nat "thrown + SwapResult"

definition fire :: "nat \<Rightarrow> hook \<Rightarrow> hook" where
  "fire i s =
    (case find (\<lambda>t. fst t = i) (intervals s) of
      None \<Rightarrow> s
    | Some (_, _, CountdownTick) \<Rightarrow> countdown_tick s
    | Some (_, _, RunSwap c) \<Rightarrow> runSwap c s)"

definition settle :: "nat \<Rightarrow> thrown + SwapResult \<Rightarrow> hook \<Rightarrow> hook" where
  "settle k settled s =
    (if k < length (inFlight s) then
       (let who = fst (inFlight s ! k);
            s1 = s\<lparr>inFlight := take k (inFlight s) @ drop (Suc k) (inFlight s)\<rparr>;
            (r, s2) = executeSingleSwap_resume settled s1
        in case who of FromRunSwap \<Rightarrow> runSwap_finish s2 | FromExecuteSwap \<Rightarrow> s2)
     else s)"

definition executeSwap :: "closure \<Rightarrow> hook \<Rightarrow> hook" where
  "executeSwap c s =
    (case executeSingleSwap_begin c s of
      (Returned r, s1) \<Rightarrow> s1
    | (Awaiting rq, s1) \<Rightarrow> s1\<lparr>inFlight := inFlight s1 @ [(FromExecuteSwap, rq)]\<rparr>)"

fun step :: "wallet \<Rightarrow> hook \<Rightarrow> event \<Rightarrow> hook" where
  "step w s Start = startDCA (render w s) s"
| "step w s Stop = stopDCA s"
| "step w s ExecuteSwap = executeSwap (render w s) s"
| "step w s SwapTokens = swapTokens s"
| "step w s (UpdateTokens src tgt) = updateTokens src tgt s"
| "step w s (SliderChange v) = handleSliderChange v s"
| "step w s (TierChange t) = handleTierChange t s"
| "step w s (Report r) = handleOnchainKitSwap r s"
| "step w s (Fire i) = fire i s"
| "step w s (Settle k settled) = settle k settled s"

definition run :: "wallet \<Rightarrow> hook \<Rightarrow> event list \<Rightarrow> hook" where
  "run w s es = foldl (step w) s es"

section \<open>Concrete inputs\<close>

text \<open>A connected wallet holding 100 USD, one holding nothing, one holding two million.\<close>

definition funded_wallet :: wallet where
  "funded_wallet =
    \<lparr>w_balance = Some ''100.00'',
     w_address = Some ''0x1111111111111111111111111111111111111111'',
     w_sendTransaction = True\<rparr>"

definition empty_wallet :: wallet where
  "empty_wallet = funded_wallet\<lparr>w_balance := Some ''0.00''\<rparr>"


text \<open>A result as \<open>executeRealSwap\<close> returns it for a swap of 1 USD into ETH.\<close>

definition real_result :: SwapResult where
  "real_result =
    \<lparr>success = True, txHash = Some ''0x2222'', error = None, amountIn = ''1.00'',
     amountOut = ''0.000400'', price = Some ''2500.00'', isReal = Some True,
     isEnhancedSimulation = None,
     note_s = Some (check_mark @ '' Invisible swap executed via smart wallet + Aerodrome DEX'')\<rparr>"

text \<open>
  Collaborators of a swap that fails: the price service is down and the wallet
  refuses the transaction for lack of funds.
\<close>

definition refused_io :: swap_io where
  "refused_io =
    \<lparr>io_fromFetch = None, io_toFetch = None,
     io_submit = (\<lambda>fromTokenAmount minToAmount. Inl (Error ''insufficient funds for gas''))\<rparr>"

text \<open>
  Two simulations, the price service still down: one whose first draw is
  \<open>1/2\<close>, which succeeds, and one whose first draw is \<open>1/32\<close>, which is the
  simulated congestion.
\<close>

definition working_sim :: sim_io where
  "working_sim =
    \<lparr>sim_fetch = None, sim_random_success = 1 / 2,
     sim_random_slippage = 1 / 2, sim_random_hash = ''0.8f3a''\<rparr>"

definition congested_sim :: sim_io where
  "congested_sim = working_sim\<lparr>sim_random_success := 1 / 32\<rparr>"

text \<open>
  The mounted hook after the user has chosen the tier \<open>seconds\<close> and moved the
  slider to 100: a swap every second.
\<close>

definition fast_hook :: hook where
  "fast_hook = handleSliderChange 100 (handleTierChange Seconds mounted_hook)"

text \<open>
  The call of \<open>executeRealSwap\<close> an attempt makes for the funded wallet and the
  default tokens: one percent of 100 USD.
\<close>

definition first_request :: swap_request where
  "first_request =
    \<lparr>rq_sourceToken = DEFAULT_SOURCE_TOKEN, rq_targetToken = DEFAULT_TARGET_TOKEN,
     rq_amountInUSD = ''1.00'',
     rq_userAddress = ''0x1111111111111111111111111111111111111111''\<rparr>"

section \<open>Rounding to a double\<close>

lemma round_half_even_error: "\<bar>of_int (round_half_even m) - m\<bar> \<le> 1 / 2"
  unfolding round_half_even_def Let_def by (auto; linarith)

lemma exponent_of_bounds:
  assumes "x \<noteq> 0"
  shows "2 powi (exponent_of x) \<le> \<bar>x\<bar> \<and> \<bar>x\<bar> < 2 powi (exponent_of x + 1)"
proof (cases "1 \<le> \<bar>x\<bar>")
  case True
  define k where "k = \<lfloor>\<bar>x\<bar>\<rfloor>"
  have k: "0 < k"
    using True by (simp add: k_def)
  have e: "exponent_of x = bitlen k - 1"
    using True by (simp add: exponent_of_def k_def)
  have b1: "1 \<le> bitlen k"
    using k bitlen_nonneg [of k] bitlen_eq_zero_iff [of k] by linarith
  from bitlen_bounds [OF k]
  have lo: "2 ^ nat (bitlen k - 1) \<le> k" and hi: "k < 2 ^ nat (bitlen k)"
    by simp_all
  have p1: "(2::real) powi (bitlen k - 1) = 2 ^ nat (bitlen k - 1)"
    using b1 by (simp add: power_int_def)
  have ee: "exponent_of x + 1 = bitlen k"
    by (simp add: e)
  have p2: "(2::real) powi (bitlen k) = 2 ^ nat (bitlen k)"
    using b1 by (simp add: power_int_def)
  have "(2::real) ^ nat (bitlen k - 1) = of_int (2 ^ nat (bitlen k - 1))"
    by simp
  also have "\<dots> \<le> of_int k"
    using lo by (simp only: of_int_le_iff)
  also have "\<dots> \<le> \<bar>x\<bar>"
    by (simp add: k_def)
  finally have A: "2 powi (exponent_of x) \<le> \<bar>x\<bar>"
    by (simp add: e p1)
  have "k + 1 \<le> 2 ^ nat (bitlen k)"
    using hi by simp
  then have "(of_int (k + 1) :: real) \<le> of_int (2 ^ nat (bitlen k))"
    by (simp only: of_int_le_iff)
  moreover have "\<bar>x\<bar> < of_int (k + 1)"
    by (simp add: k_def)
  ultimately have "\<bar>x\<bar> < 2 ^ nat (bitlen k)"
    by simp
  then have B: "\<bar>x\<bar> < 2 powi (exponent_of x + 1)"
    unfolding ee p2 .
  show ?thesis using A B by simp
next
  case False
  define y where "y = 1 / \<bar>x\<bar>"
  define j where "j = \<lceil>y\<rceil> - 1"
  have xpos: "0 < \<bar>x\<bar>" using assms by simp
  have y1: "1 < y"
    using False xpos by (simp add: y_def)
  have j: "0 < j"
    using y1 by (simp add: j_def less_ceiling_iff)
  have e: "exponent_of x = - bitlen j"
    using False by (simp add: exponent_of_def j_def y_def)
  have b1: "1 \<le> bitlen j"
    using j bitlen_nonneg [of j] bitlen_eq_zero_iff [of j] by linarith
  from bitlen_bounds [OF j]
  have lo: "2 ^ nat (bitlen j - 1) \<le> j" and hi: "j < 2 ^ nat (bitlen j)"
    by simp_all
  have p1: "(2::real) powi (- bitlen j) = 1 / 2 ^ nat (bitlen j)"
    using b1 by (simp add: power_int_def field_simps)
  have ee: "exponent_of x + 1 = - (bitlen j - 1)"
    by (simp add: e)
  have p2: "(2::real) powi (- (bitlen j - 1)) = 1 / 2 ^ nat (bitlen j - 1)"
    using b1 by (cases "bitlen j = 1") (simp_all add: power_int_def field_simps)
  have "j + 1 \<le> 2 ^ nat (bitlen j)"
    using hi by simp
  then have "(of_int (j + 1) :: real) \<le> of_int (2 ^ nat (bitlen j))"
    by (simp only: of_int_le_iff)
  moreover have "y \<le> of_int (j + 1)"
    by (simp add: j_def)
  ultimately have yhi: "y \<le> 2 ^ nat (bitlen j)"
    by simp
  have "1 / 2 ^ nat (bitlen j) \<le> 1 / y"
    using yhi y1 by (simp add: frac_le)
  then have A: "2 powi (exponent_of x) \<le> \<bar>x\<bar>"
    using xpos by (simp add: e p1 y_def)
  have "(of_int (2 ^ nat (bitlen j - 1)) :: real) \<le> of_int j"
    using lo by (simp only: of_int_le_iff)
  then have r: "(2::real) ^ nat (bitlen j - 1) \<le> of_int j"
    by simp
  have "of_int j < y"
    by (simp add: j_def) linarith
  then have ylo: "2 ^ nat (bitlen j - 1) < y"
    using r by linarith
  have "1 / y < 1 / 2 ^ nat (bitlen j - 1)"
    using ylo by (simp add: frac_less2)
  then have "\<bar>x\<bar> < 1 / 2 ^ nat (bitlen j - 1)"
    using xpos by (simp add: y_def)
  then have B: "\<bar>x\<bar> < 2 powi (exponent_of x + 1)"
    unfolding ee p2 .
  show ?thesis using A B by simp
qed

lemma fl_error:
  assumes B: "\<bar>x\<bar> \<le> B" and norm: "1 / 2 ^ 1022 \<le> B"
  shows "\<bar>fl x - x\<bar> \<le> B / 2 ^ 53"
proof (cases "x = 0")
  case True
  then show ?thesis using norm B by (simp add: fl_def)
next
  case False
  define e where "e = max (exponent_of x) (- 1022)"
  define u :: real where "u = 2 powi (e - 52)"
  have u0: "0 < u" by (simp add: u_def)
  have f: "fl x = of_int (round_half_even (x / u)) * u"
    using False by (simp add: fl_def e_def u_def Let_def)
  have "fl x - x = (of_int (round_half_even (x / u)) - x / u) * u"
    using u0 by (simp add: f field_simps)
  then have "\<bar>fl x - x\<bar> = \<bar>of_int (round_half_even (x / u)) - x / u\<bar> * u"
    using u0 by (simp add: abs_mult)
  also have "\<dots> \<le> 1 / 2 * u"
    using round_half_even_error [of "x / u"] u0 by (intro mult_right_mono) simp_all
  finally have err: "\<bar>fl x - x\<bar> \<le> u / 2" by simp
  have usplit: "u = 2 powi e / 2 ^ 52"
    by (simp add: u_def power_int_diff)
  show ?thesis
  proof (cases "- 1022 \<le> exponent_of x")
    case True
    then have "e = exponent_of x" by (simp add: e_def)
    then have "2 powi e \<le> \<bar>x\<bar>"
      using exponent_of_bounds [OF False] by simp
    then have "2 powi e \<le> B" using B by linarith
    then have "u / 2 \<le> B / 2 ^ 53"
      by (simp add: usplit field_simps)
    then show ?thesis using err by linarith
  next
    case False
    then have "e = - 1022" by (simp add: e_def)
    then have "(2::real) powi e = 1 / 2 ^ 1022"
      by (simp add: power_int_minus field_simps)
    then have "2 powi e \<le> B" using norm by simp
    then have "u / 2 \<le> B / 2 ^ 53"
      by (simp add: usplit field_simps)
    then show ?thesis using err by linarith
  qed
qed

section \<open>The frequency mapper\<close>

lemma find_tier:
  "tc \<in> set SLIDER_TIERS \<Longrightarrow> find (\<lambda>c. tier c = tier tc) SLIDER_TIERS = Some tc"
  by (auto simp add: SLIDER_TIERS_def)

lemma tier_bounds_integral:
  assumes "tc \<in> set SLIDER_TIERS"
  obtains a b :: int where "min_s tc = of_int a" and "max_s tc = of_int b"
    and "1 \<le> a" and "a \<le> b" and "b \<le> 2592000"
proof -
  from assms consider "min_s tc = of_int 86400 \<and> max_s tc = of_int 2592000"
    | "min_s tc = of_int 3600 \<and> max_s tc = of_int 86400"
    | "min_s tc = of_int 60 \<and> max_s tc = of_int 3600"
    | "min_s tc = of_int 1 \<and> max_s tc = of_int 60"
    by (auto simp add: SLIDER_TIERS_def)
  then show thesis
  proof cases
    case 1 then show ?thesis using that [of 86400 2592000] by simp
  next
    case 2 then show ?thesis using that [of 3600 86400] by simp
  next
    case 3 then show ?thesis using that [of 60 3600] by simp
  next
    case 4 then show ?thesis using that [of 1 60] by simp
  qed
qed

lemma mult_error:
  fixes x y x' y' :: real
  assumes dx: "\<bar>x - x'\<bar> \<le> dx" and dy: "\<bar>y - y'\<bar> \<le> dy"
    and X: "\<bar>x'\<bar> \<le> X" and Y: "\<bar>y\<bar> \<le> Y"
  shows "\<bar>x * y - x' * y'\<bar> \<le> dx * Y + X * dy"
proof -
  have "x * y - x' * y' = (x - x') * y + x' * (y - y')"
    by (simp add: algebra_simps)
  then have "\<bar>x * y - x' * y'\<bar> \<le> \<bar>x - x'\<bar> * \<bar>y\<bar> + \<bar>x'\<bar> * \<bar>y - y'\<bar>"
    by (metis abs_mult abs_triangle_ineq)
  also have "\<dots> \<le> dx * Y + X * dy"
    using dx dy X Y by (intro add_mono mult_mono) simp_all
  finally show ?thesis .
qed

text \<open>
  The error of the five rounded operations, for a value between 0 and 100: the
  seconds are within \<open>2^-28\<close> of the exact value and the milliseconds, before
  \<open>Math.round\<close>, within a hundred-thousandth.
\<close>

lemma frequency_error:
  assumes tc: "tc \<in> set SLIDER_TIERS" and v0: "0 \<le> v" and v100: "v \<le> 100"
  defines "S \<equiv> min_s tc + (max_s tc - min_s tc) * (1 - v / 100)"
  shows "\<bar>frequency_seconds v tc - S\<bar> \<le> 1 / 2 ^ 28"
    and "\<bar>fl (frequency_seconds v tc * 1000) - S * 1000\<bar> \<le> 1 / 100000"
proof -
  obtain a b :: int where a: "min_s tc = of_int a" and b: "max_s tc = of_int b"
    and a1: "1 \<le> a" and ab: "a \<le> b" and bmax: "b \<le> 2592000"
    using tier_bounds_integral [OF tc] by blast
  define R :: real where "R = max_s tc - min_s tc"
  define u :: real where "u = 1 - v / 100"
  define n where "n = fl (v / 100)"
  define w where "w = fl (1 - n)"
  define rg where "rg = fl R"
  define p where "p = fl (rg * w)"
  define c where "c = fl (min_s tc + p)"
  have fs: "frequency_seconds v tc = c"
    by (simp add: frequency_seconds_def Let_def c_def p_def rg_def w_def n_def R_def)
  have S: "S = min_s tc + R * u"
    by (simp add: S_def R_def u_def)
  have u01: "0 \<le> u" "u \<le> 1"
    using v0 v100 by (simp_all add: u_def)
  have m1: "1 \<le> min_s tc" "min_s tc \<le> 2592000"
    using a1 ab bmax by (simp_all add: a)
  have R0: "0 \<le> R" "R \<le> 2592000"
    using a1 ab bmax by (simp_all add: R_def a b)
  have en: "\<bar>n - v / 100\<bar> \<le> 1 / 9007199254740992"
    using fl_error [of "v / 100" 1] v0 v100 by (simp add: n_def)
  have "\<bar>1 - n\<bar> \<le> 2"
    using en v0 v100 by linarith
  then have "\<bar>w - (1 - n)\<bar> \<le> 2 / 9007199254740992"
    using fl_error [of "1 - n" 2] by (simp add: w_def)
  then have ew: "\<bar>w - u\<bar> \<le> 3 / 9007199254740992"
    using en unfolding u_def by linarith
  have w2: "\<bar>w\<bar> \<le> 2"
    using ew u01 by linarith
  have erg: "\<bar>rg - R\<bar> \<le> 4194304 / 9007199254740992"
    using fl_error [of R 4194304] R0 by (simp add: rg_def)
  have "\<bar>rg * w - R * u\<bar> \<le> 4194304 / 9007199254740992 * 2 + 4194304 * (3 / 9007199254740992)"
    using erg ew _ w2 by (rule mult_error) (use R0 in simp)
  then have ex3: "\<bar>rg * w - R * u\<bar> \<le> 20971520 / 9007199254740992"
    by simp
  have Ru: "0 \<le> R * u" "R * u \<le> R"
    using R0 u01 by (simp_all add: mult_left_le)
  have "\<bar>rg * w\<bar> \<le> 8388608"
    using ex3 Ru R0 by linarith
  then have "\<bar>p - rg * w\<bar> \<le> 8388608 / 9007199254740992"
    using fl_error [of "rg * w" 8388608] by (simp add: p_def)
  then have ep: "\<bar>p - R * u\<bar> \<le> 29360128 / 9007199254740992"
    using ex3 by linarith
  have Sb: "1 \<le> S" "S \<le> 2592000"
  proof -
    show "1 \<le> S" using m1 Ru by (simp add: S)
    have "min_s tc + R * u \<le> min_s tc + R" using Ru by simp
    also have "\<dots> = max_s tc" by (simp add: R_def)
    also have "\<dots> \<le> 2592000" using bmax by (simp add: b)
    finally show "S \<le> 2592000" by (simp add: S)
  qed
  have e4: "\<bar>(min_s tc + p) - S\<bar> \<le> 29360128 / 9007199254740992"
    using ep by (simp add: S)
  then have "\<bar>min_s tc + p\<bar> \<le> 4194304"
    using Sb by linarith
  then have "\<bar>c - (min_s tc + p)\<bar> \<le> 4194304 / 9007199254740992"
    using fl_error [of "min_s tc + p" 4194304] by (simp add: c_def)
  then have ec: "\<bar>c - S\<bar> \<le> 33554432 / 9007199254740992"
    using e4 by linarith
  then show "\<bar>frequency_seconds v tc - S\<bar> \<le> 1 / 2 ^ 28"
    unfolding fs by simp
  have c4: "\<bar>c\<bar> \<le> 4194304"
    using ec Sb by linarith
  then have "\<bar>c * 1000\<bar> \<le> 4294967296"
    by linarith
  then have e5: "\<bar>fl (c * 1000) - c * 1000\<bar> \<le> 4294967296 / 9007199254740992"
    using fl_error [of "c * 1000" 4294967296] by simp
  have "\<bar>c * 1000 - S * 1000\<bar> \<le> 33554432000 / 9007199254740992"
    using ec by linarith
  then have "\<bar>fl (c * 1000) - S * 1000\<bar> \<le> 37849399296 / 9007199254740992"
    using e5 by linarith
  then show "\<bar>fl (frequency_seconds v tc * 1000) - S * 1000\<bar> \<le> 1 / 100000"
    unfolding fs by linarith
qed

lemmas fl_eval = fl_def exponent_of_def compute_bitlen round_half_even_def Let_def

lemma seconds_tier: "\<lparr>tier = Seconds, min_s = 1, max_s = 60, label = ''Seconds''\<rparr> \<in> set SLIDER_TIERS"
  by (simp add: SLIDER_TIERS_def)

lemma frequency_seconds_50:
  "frequency_seconds 50 \<lparr>tier = Seconds, min_s = 1, max_s = 60, label = ''Seconds''\<rparr> = 61 / 2"
proof -
  have 1: "fl (50 / 100) = 1 / 2" by (simp add: fl_eval)
  have 2: "fl (60 - 1) = 59" by (simp add: fl_eval)
  have 3: "fl (1 - 1 / 2) = 1 / 2" by (simp add: fl_eval)
  have 4: "fl (59 * (1 / 2)) = 59 / 2" by (simp add: fl_eval)
  have 5: "fl (1 + 59 / 2) = 61 / 2" by (simp add: fl_eval)
  show ?thesis
    unfolding frequency_seconds_def Let_def SliderTier.simps 1 2 3 4 5 ..
qed

text \<open>
  The value 9.75 of the tier \<open>seconds\<close>: the exact result is 54247.5 ms, which
  \<open>Math.round\<close> would take to 54248; the product computed in doubles is just
  below it, and the code returns 54247.
\<close>

lemma calculateFrequency_9_75: "calculateFrequency (39 / 4) Seconds = 54247"
proof -
  have 1: "fl (39 / 4 / 100) = 3512807709348987 / 2 ^ 55" by (simp add: fl_eval)
  have 2: "fl (60 - 1) = 59" by (simp add: fl_eval)
  have 3: "fl (1 - 3512807709348987 / 2 ^ 55) = 8128997327403745 / 2 ^ 53"
    by (simp add: fl_eval)
  have 4: "fl (59 * (8128997327403745 / 2 ^ 53)) = 7493919411200327 / 2 ^ 47"
    by (simp add: fl_eval)
  have 5: "fl (1 + 7493919411200327 / 2 ^ 47) = 7634656899555655 / 2 ^ 47"
    by (simp add: fl_eval)
  have 6: "fl (7634656899555655 / 2 ^ 47 * 1000) = 7455719628472319 / 2 ^ 37"
    by (simp add: fl_eval)
  have f: "frequency_seconds (39 / 4) \<lparr>tier = Seconds, min_s = 1, max_s = 60, label = ''Seconds''\<rparr>
      = 7634656899555655 / 2 ^ 47"
    unfolding frequency_seconds_def Let_def SliderTier.simps 1 2 3 4 5 ..
  have "find (\<lambda>c. tier c = Seconds) SLIDER_TIERS
      = Some \<lparr>tier = Seconds, min_s = 1, max_s = 60, label = ''Seconds''\<rparr>"
    by (simp add: SLIDER_TIERS_def)
  then have "calculateFrequency (39 / 4) Seconds = round (7455719628472319 / 2 ^ 37 :: real)"
    by (simp only: calculateFrequency_def option.case f 6)
  also have "\<dots> = 54247"
    by (simp add: round_def)
  finally show ?thesis .
qed

lemma round_within_half: "\<bar>of_int (round x) - (x::real)\<bar> \<le> 1 / 2"
  using of_int_round_abs_le [of x] by simp

lemma round_near_int:
  fixes d :: real
  assumes "\<bar>d - of_int N\<bar> \<le> 1 / 100000"
  shows "round d = N"
proof -
  have "of_int N \<le> d + 1 / 2" and "d + 1 / 2 < of_int N + 1"
    using assms by linarith+
  then show ?thesis
    unfolding round_def by (intro floor_unique) simp_all
qed

lemma calculateFrequency_integer:
  assumes tc: "tc \<in> set SLIDER_TIERS" and k0: "0 \<le> k" and k100: "k \<le> 100"
  shows "calculateFrequency (of_int k) (tier tc) =
           round ((min_s tc + (max_s tc - min_s tc) * (1 - of_int k / 100)) * 1000)"
proof -
  obtain a b :: int where a: "min_s tc = of_int a" and b: "max_s tc = of_int b"
    using tier_bounds_integral [OF tc] by blast
  define N where "N = 1000 * a + 10 * (b - a) * (100 - k)"
  have N: "(min_s tc + (max_s tc - min_s tc) * (1 - of_int k / 100)) * 1000 = of_int N"
    by (simp add: N_def a b field_simps)
  have "\<bar>fl (frequency_seconds (of_int k) tc * 1000) - of_int N\<bar> \<le> 1 / 100000"
    using frequency_error(2) [OF tc, of "of_int k"] k0 k100 unfolding N by simp
  then have "round (fl (frequency_seconds (of_int k) tc * 1000)) = N"
    by (rule round_near_int)
  then show ?thesis
    unfolding N using find_tier [OF tc] by (simp add: calculateFrequency_def)
qed

text \<open>
  C3. For every tier of \<open>SLIDER_TIERS\<close>, with its range \<open>[min, max]\<close> in seconds,
  and every value between 0 and 100, the seconds the mapper computes are
  \<open>min + (max - min) * (1 - value / 100)\<close>, up to the rounding of its five
  operations on doubles (less than \<open>2^-28\<close>); for an integer value the
  milliseconds returned are exactly those of the formula; for the tier
  \<open>seconds\<close> the values 0, 100 and 50 give 60000, 1000 and 30500.
\<close>

theorem calculateFrequency_linear_inverted:
  assumes "tc \<in> set SLIDER_TIERS" and "0 \<le> v" and "v \<le> 100"
  shows "\<bar>frequency_seconds v tc - (min_s tc + (max_s tc - min_s tc) * (1 - v / 100))\<bar>
           \<le> 1 / 2 ^ 28
         \<and> calculateFrequency v (tier tc) = round (fl (frequency_seconds v tc * 1000))
         \<and> (v = of_int k \<longrightarrow>
              calculateFrequency v (tier tc) =
                round ((min_s tc + (max_s tc - min_s tc) * (1 - v / 100)) * 1000))
         \<and> calculateFrequency 0 Seconds = 60000
         \<and> calculateFrequency 100 Seconds = 1000
         \<and> calculateFrequency 50 Seconds = 30500"
proof -
  have A: "\<bar>frequency_seconds v tc - (min_s tc + (max_s tc - min_s tc) * (1 - v / 100))\<bar>
           \<le> 1 / 2 ^ 28"
    using assms by (rule frequency_error(1))
  have B: "calculateFrequency v (tier tc) = round (fl (frequency_seconds v tc * 1000))"
    using find_tier [OF assms(1)] by (simp add: calculateFrequency_def)
  have C: "calculateFrequency v (tier tc) =
                round ((min_s tc + (max_s tc - min_s tc) * (1 - v / 100)) * 1000)"
    if "v = of_int k"
  proof -
    have "0 \<le> k" "k \<le> 100"
      using assms(2,3) that by simp_all
    then show ?thesis
      unfolding that using assms(1) by (intro calculateFrequency_integer)
  qed
  have D: "calculateFrequency 0 Seconds = 60000"
    using calculateFrequency_integer [OF seconds_tier, of 0] by simp
  have E: "calculateFrequency 100 Seconds = 1000"
    using calculateFrequency_integer [OF seconds_tier, of 100] by simp
  have F: "calculateFrequency 50 Seconds = 30500"
    using calculateFrequency_integer [OF seconds_tier, of 50] by simp
  show ?thesis
    using A B C D E F by blast
qed

theorem calculateFrequency_linear_inverted_witness:
  "\<lparr>tier = Minutes, min_s = 60, max_s = 3600, label = ''Minutes''\<rparr> \<in> set SLIDER_TIERS
   \<and> (0::real) \<le> 25 \<and> (25::real) \<le> 100
   \<and> \<bar>frequency_seconds 25 \<lparr>tier = Minutes, min_s = 60, max_s = 3600, label = ''Minutes''\<rparr>
        - 2715\<bar> \<le> 1 / 2 ^ 28
   \<and> calculateFrequency 25 Minutes = 2715000"
proof -
  have h: "\<lparr>tier = Minutes, min_s = 60, max_s = 3600, label = ''Minutes''\<rparr> \<in> set SLIDER_TIERS"
    by (simp add: SLIDER_TIERS_def)
  show ?thesis
    using h calculateFrequency_linear_inverted [OF h, of 25 25] by simp
qed

text \<open>
  C4, as stated, fails: at the value 50 of the tier \<open>seconds\<close> the mapper
  returns 30500 ms, which is no multiple of 1000; rounding the seconds first
  would give 31000 ms.
\<close>

theorem calculateFrequency_not_whole_seconds:
  "calculateFrequency 50 Seconds = 30500
   \<and> \<not> 1000 dvd calculateFrequency 50 Seconds
   \<and> frequency_rounded_to_seconds 50 Seconds = 31000"
proof -
  have a: "calculateFrequency 50 Seconds = 30500"
    using calculateFrequency_integer [OF seconds_tier, of 50] by simp
  have "find (\<lambda>c. tier c = Seconds) SLIDER_TIERS
      = Some \<lparr>tier = Seconds, min_s = 1, max_s = 60, label = ''Seconds''\<rparr>"
    by (simp add: SLIDER_TIERS_def)
  then have "frequency_rounded_to_seconds 50 Seconds = round (61 / 2 :: real) * 1000"
    by (simp only: frequency_rounded_to_seconds_def option.case frequency_seconds_50)
  then have b: "frequency_rounded_to_seconds 50 Seconds = 31000"
    by (simp add: round_def)
  show ?thesis
    using b by (simp add: a)
qed

text \<open>
  C4, amended. For every control value in \<open>[0, 100]\<close> and every tier, the
  mapper converts the computed seconds to milliseconds and then rounds to the
  nearest integer: the result is within half a millisecond of the exact value,
  up to the rounding of the operations on doubles (a hundred-thousandth of a
  millisecond), and between the tier's bounds.
\<close>

theorem calculateFrequency_rounds_milliseconds:
  assumes tc: "tc \<in> set SLIDER_TIERS" and v0: "0 \<le> v" and v100: "v \<le> 100"
  shows "calculateFrequency v (tier tc) = round (fl (frequency_seconds v tc * 1000))
         \<and> \<bar>of_int (calculateFrequency v (tier tc))
            - (min_s tc + (max_s tc - min_s tc) * (1 - v / 100)) * 1000\<bar>
             \<le> 1 / 2 + 1 / 100000
         \<and> min_s tc * 1000 \<le> of_int (calculateFrequency v (tier tc))
         \<and> of_int (calculateFrequency v (tier tc)) \<le> max_s tc * 1000"
proof -
  obtain a b :: int where a: "min_s tc = of_int a" and b: "max_s tc = of_int b"
    and ab: "a \<le> b"
    using tier_bounds_integral [OF tc] by blast
  define S where "S = min_s tc + (max_s tc - min_s tc) * (1 - v / 100)"
  define d where "d = fl (frequency_seconds v tc * 1000)"
  have cf: "calculateFrequency v (tier tc) = round d"
    using find_tier [OF tc] by (simp add: calculateFrequency_def d_def)
  have e: "\<bar>d - S * 1000\<bar> \<le> 1 / 100000"
    unfolding d_def S_def using tc v0 v100 by (rule frequency_error(2))
  have close: "\<bar>of_int (round d) - S * 1000\<bar> \<le> 1 / 2 + 1 / 100000"
    using e round_within_half [of d] by linarith
  have u: "0 \<le> 1 - v / 100" "1 - v / 100 \<le> 1"
    using v0 v100 by simp_all
  have r: "(0::real) \<le> of_int b - of_int a"
    using ab by simp
  have "0 \<le> (of_int b - of_int a) * (1 - v / 100)"
    using r u(1) by (rule mult_nonneg_nonneg)
  then have lo: "of_int (a * 1000) \<le> S * 1000"
    by (simp add: S_def a b)
  have "(of_int b - of_int a) * (1 - v / 100) \<le> (of_int b - of_int a) * 1"
    using u(2) r by (rule mult_left_mono)
  then have hi: "S * 1000 \<le> of_int (b * 1000)"
    by (simp add: S_def a b)
  have "of_int (a * 1000) \<le> d + 1 / 2"
    using lo e by linarith
  then have "a * 1000 \<le> round d"
    unfolding round_def by (simp only: le_floor_iff)
  then have "(of_int (a * 1000) :: real) \<le> of_int (round d)"
    by (simp only: of_int_le_iff)
  then have lower: "min_s tc * 1000 \<le> of_int (round d)"
    by (simp add: a)
  have "d + 1 / 2 < of_int (b * 1000) + 1"
    using hi e by linarith
  then have "round d \<le> b * 1000"
    unfolding round_def by (simp only: floor_le_iff)
  then have "(of_int (round d) :: real) \<le> of_int (b * 1000)"
    by (simp only: of_int_le_iff)
  then have upper: "of_int (round d) \<le> max_s tc * 1000"
    by (simp add: b)
  show ?thesis
    using close lower upper unfolding cf d_def S_def by simp
qed

theorem calculateFrequency_rounds_milliseconds_witness:
  "\<lparr>tier = Seconds, min_s = 1, max_s = 60, label = ''Seconds''\<rparr> \<in> set SLIDER_TIERS
   \<and> (0::real) \<le> 39 / 4 \<and> (39::real) / 4 \<le> 100
   \<and> calculateFrequency (39 / 4) Seconds = 54247
   \<and> \<bar>real_of_int (calculateFrequency (39 / 4) Seconds) - 108495 / 2\<bar> \<le> 1 / 2 + 1 / 100000
   \<and> 1000 \<le> calculateFrequency (39 / 4) Seconds
   \<and> calculateFrequency (39 / 4) Seconds \<le> 60000"
proof -
  have "\<bar>real_of_int (calculateFrequency (39 / 4) Seconds) - 108495 / 2\<bar> \<le> 1 / 2 + 1 / 100000"
    and "1000 \<le> real_of_int (calculateFrequency (39 / 4) Seconds)"
    and "real_of_int (calculateFrequency (39 / 4) Seconds) \<le> 60000"
    using calculateFrequency_rounds_milliseconds [OF seconds_tier, of "39 / 4", THEN conjunct2]
    by simp_all
  then show ?thesis
    using seconds_tier calculateFrequency_9_75 by simp
qed

section \<open>Values of the amounts used below\<close>

lemma skip_white_space_none: "white_space_length s = 0 \<Longrightarrow> skip_white_space s = s"
  by (simp add: skip_white_space.simps)

lemmas parse_eval = parseFloat_def skip_white_space_none white_space_length_def is_space_def
  is_digit_def digits_value_def exponent_part_def

lemma to_double_small_integers:
  "to_double 0 = Num 0" "to_double 1 = Num 1" "to_double 2 = Num 2" "to_double 5 = Num 5"
  "to_double 7 = Num 7" "to_double 100 = Num 100" "to_double 20000 = Num 20000"
  "to_double 2000000 = Num 2000000"
  by (simp_all add: to_double_def fl_eval)

lemma to_double_hundredth: "to_double (1 / 100) = Num (5764607523034235 / 2 ^ 59)"
  by (simp add: to_double_def fl_eval)

lemma parseFloat_0_00: "parseFloat ''0.00'' = Num 0"
  by (simp add: parse_eval to_double_small_integers)

lemma parseFloat_1_00: "parseFloat ''1.00'' = Num 1"
  by (simp add: parse_eval to_double_small_integers)

lemma parseFloat_2_00: "parseFloat ''2.00'' = Num 2"
  by (simp add: parse_eval to_double_small_integers)

lemma parseFloat_5_00: "parseFloat ''5.00'' = Num 5"
  by (simp add: parse_eval to_double_small_integers)

lemma parseFloat_100_00: "parseFloat ''100.00'' = Num 100"
  by (simp add: parse_eval to_double_small_integers)



lemma one_percent_of_100: "jmul (Num 100) (to_double (1 / 100)) = Num 1"
  unfolding to_double_hundredth by (simp add: to_double_def fl_eval)


lemma hundredth_is_small:
  "\<not> jlt (Num 1) (to_double (1 / 100))" "\<not> jlt (Num 20000) (to_double (1 / 100))"
  "\<not> jlt (Num 100) (Num 1)"
  unfolding to_double_hundredth by simp_all

lemma toFixed_2_1: "toFixed 2 (Num 1) = ''1.00''"
proof -
  have "digits_of 100 = ''100''"
    by (simp add: digits_of.simps digit_char_def)
  then show ?thesis
    by (simp add: toFixed_def)
qed

text \<open>
  The sum of doubles is not the sum of the decimals: 0.10 and 0.20 add up to
  0.30000000000000004.
\<close>

lemma sum_of_tenths:
  "jadd (parseFloat ''0.10'') (parseFloat ''0.20'') = Num (1351079888211149 / 2 ^ 52)"
proof -
  have a: "parseFloat ''0.10'' = Num (3602879701896397 / 2 ^ 55)"
    by (simp add: parse_eval to_double_def fl_eval)
  have b: "parseFloat ''0.20'' = Num (3602879701896397 / 2 ^ 54)"
    by (simp add: parse_eval to_double_def fl_eval)
  show ?thesis
    unfolding a b by (simp add: to_double_def fl_eval)
qed

section \<open>History and total\<close>

lemma swapHistory_handleOnchainKitSwap:
  "swapHistory (handleOnchainKitSwap r s) = r # take 9 (swapHistory s)"
  by (simp add: handleOnchainKitSwap_def Let_def)

lemma totalSwapped_handleOnchainKitSwap:
  "totalSwapped (handleOnchainKitSwap r s) =
     (if success r then jadd (totalSwapped s) (parseFloat (amountIn r)) else totalSwapped s)"
  by (simp add: handleOnchainKitSwap_def Let_def)

lemma run_snoc: "run w s (es @ [e]) = step w (run w s es) e"
  by (simp add: run_def)

lemma swapHistory_reports:
  "length (swapHistory s) \<le> 10 \<Longrightarrow>
     swapHistory (run w s (map Report rs)) = take 10 (rev rs @ swapHistory s)"
proof (induction rs rule: rev_induct)
  case Nil
  then show ?case by (simp add: run_def)
next
  case (snoc r rs)
  have "swapHistory (run w s (map Report (rs @ [r])))
        = r # take 9 (swapHistory (run w s (map Report rs)))"
    by (simp add: run_snoc swapHistory_handleOnchainKitSwap)
  also have "\<dots> = r # take 9 (take 10 (rev rs @ swapHistory s))"
    using snoc by simp
  also have "\<dots> = r # take 9 (rev rs @ swapHistory s)"
    by (simp only: take_take) simp
  also have "\<dots> = take 10 (rev (rs @ [r]) @ swapHistory s)"
    by simp
  finally show ?case .
qed

lemma totalSwapped_reports:
  "totalSwapped (run w s (map Report rs)) =
     foldl jadd (totalSwapped s) (map (\<lambda>r. parseFloat (amountIn r)) (filter success rs))"
proof (induction rs rule: rev_induct)
  case Nil
  then show ?case by (simp add: run_def)
next
  case (snoc r rs)
  then show ?case
    by (simp add: run_snoc totalSwapped_handleOnchainKitSwap)
qed

text \<open>
  An event leaves the history as it is or puts one result in front of 9 of the
  old ones.
\<close>

lemma swapHistory_step:
  "swapHistory (step w s e) = swapHistory s
   \<or> (\<exists>r. swapHistory (step w s e) = r # take 9 (swapHistory s))"
proof (cases e)
  case Start
  then show ?thesis
    by (simp add: startDCA_def startCountdown_def setInterval_def clearInterval_def Let_def
        split: option.splits)
next
  case Stop
  then show ?thesis
    by (simp add: stopDCA_def clearInterval_def Let_def split: option.splits)
next
  case ExecuteSwap
  then show ?thesis
    by (simp add: executeSwap_def executeSingleSwap_begin_def swapHistory_handleOnchainKitSwap
        Let_def split: sum.splits)
next
  case SwapTokens
  then show ?thesis by (simp add: swapTokens_def)
next
  case (UpdateTokens a b)
  then show ?thesis by (simp add: updateTokens_def)
next
  case (SliderChange v)
  then show ?thesis by (simp add: handleSliderChange_def frequency_effect_def Let_def)
next
  case (TierChange t)
  then show ?thesis by (simp add: handleTierChange_def frequency_effect_def Let_def)
next
  case (Report r)
  then show ?thesis by (simp add: swapHistory_handleOnchainKitSwap)
next
  case (Fire i)
  then show ?thesis
    by (simp add: fire_def countdown_tick_def runSwap_def runSwap_finish_def
        executeSingleSwap_begin_def swapHistory_handleOnchainKitSwap Let_def
        split: option.splits prod.splits callback.splits sum.splits)
next
  case (Settle k x)
  then show ?thesis
    by (simp add: settle_def executeSingleSwap_resume_def runSwap_finish_def
        swapHistory_handleOnchainKitSwap Let_def
        split: sum.splits caller.splits thrown.splits)
qed

lemma swapHistory_bounded_step:
  "length (swapHistory s) \<le> 10 \<Longrightarrow> length (swapHistory (step w s e)) \<le> 10"
  using swapHistory_step [of w s e] by auto

lemma swapHistory_bounded_run:
  "length (swapHistory s) \<le> 10 \<Longrightarrow> length (swapHistory (run w s es)) \<le> 10"
  by (induction es rule: rev_induct) (simp_all add: run_def swapHistory_bounded_step)

text \<open>
  C6. The history is newest first and holds at most 10 results:
  \<open>handleOnchainKitSwap\<close> puts the new result in front and keeps 9 of the
  old ones, so after any events the length is at most 10, after the results
  \<open>rs\<close> the history is the last 10 of them, newest first, and after 12 results
  the length is 10 and the first entry is the twelfth result.
\<close>

theorem swapHistory_newest_first_at_most_10:
  "swapHistory (handleOnchainKitSwap r s) = r # take 9 (swapHistory s)
   \<and> length (swapHistory (run w mounted_hook es)) \<le> 10
   \<and> swapHistory (run w mounted_hook (map Report rs)) = take 10 (rev rs)
   \<and> length (swapHistory (run w mounted_hook
         (map Report [r1, r2, r3, r4, r5, r6, r7, r8, r9, r10, r11, r12]))) = 10
   \<and> swapHistory (run w mounted_hook
         (map Report [r1, r2, r3, r4, r5, r6, r7, r8, r9, r10, r11, r12])) ! 0 = r12"
proof -
  have m: "swapHistory mounted_hook = []"
    by (simp add: mounted_hook_def frequency_effect_def initial_hook_def Let_def)
  have a: "length (swapHistory (run w mounted_hook es)) \<le> 10"
    by (rule swapHistory_bounded_run) (simp add: m)
  have b: "swapHistory (run w mounted_hook (map Report xs)) = take 10 (rev xs)" for xs
    using swapHistory_reports [of mounted_hook w xs] by (simp add: m)
  have c: "swapHistory (run w mounted_hook
         (map Report [r1, r2, r3, r4, r5, r6, r7, r8, r9, r10, r11, r12]))
       = [r12, r11, r10, r9, r8, r7, r6, r5, r4, r3]"
    unfolding b by simp
  have d: "length (swapHistory (run w mounted_hook
         (map Report [r1, r2, r3, r4, r5, r6, r7, r8, r9, r10, r11, r12]))) = 10"
    unfolding c by simp
  have e: "swapHistory (run w mounted_hook
         (map Report [r1, r2, r3, r4, r5, r6, r7, r8, r9, r10, r11, r12])) ! 0 = r12"
    unfolding c by simp
  show ?thesis
    using swapHistory_handleOnchainKitSwap [of r s] a b [of rs] d e by blast
qed

text \<open>
  C7. The total is the sum of \<open>amountIn\<close> over the successful results
  recorded, added as JavaScript adds them (one double at a time, in the order
  of recording): a failed result leaves it as it is, a successful one adds its
  \<open>amountIn\<close>, and starting, stopping and reconfiguring do not change it; the
  amounts 5 (success), 3 (failure), 2 (success) give 7.
\<close>

theorem totalSwapped_sums_successes:
  "totalSwapped (handleOnchainKitSwap r s) =
     (if success r then jadd (totalSwapped s) (parseFloat (amountIn r)) else totalSwapped s)
   \<and> totalSwapped (run w s (map Report rs)) =
       foldl jadd (totalSwapped s) (map (\<lambda>r. parseFloat (amountIn r)) (filter success rs))
   \<and> totalSwapped (startDCA c s) = totalSwapped s
   \<and> totalSwapped (stopDCA s) = totalSwapped s
   \<and> totalSwapped (swapTokens s) = totalSwapped s
   \<and> totalSwapped (updateTokens a b s) = totalSwapped s
   \<and> totalSwapped (handleSliderChange v s) = totalSwapped s
   \<and> totalSwapped (handleTierChange t s) = totalSwapped s
   \<and> totalSwapped (run w mounted_hook
         [Report ((failed_swap [])\<lparr>success := True, error := None, amountIn := ''5.00''\<rparr>),
          Report ((failed_swap ''Swap failed'')\<lparr>amountIn := ''3.00''\<rparr>),
          Report ((failed_swap [])\<lparr>success := True, error := None, amountIn := ''2.00''\<rparr>)])
       = Num 7"
proof -
  have start: "totalSwapped (startDCA c s) = totalSwapped s"
    by (simp add: startDCA_def startCountdown_def setInterval_def clearInterval_def Let_def
        split: option.splits)
  have stop: "totalSwapped (stopDCA s) = totalSwapped s"
    by (simp add: stopDCA_def clearInterval_def Let_def split: option.splits)
  have reconf: "totalSwapped (swapTokens s) = totalSwapped s"
    "totalSwapped (updateTokens a b s) = totalSwapped s"
    "totalSwapped (handleSliderChange v s) = totalSwapped s"
    "totalSwapped (handleTierChange t s) = totalSwapped s"
    by (simp_all add: swapTokens_def updateTokens_def handleSliderChange_def
        handleTierChange_def frequency_effect_def Let_def)
  have m: "totalSwapped mounted_hook = Num 0"
    by (simp add: mounted_hook_def frequency_effect_def initial_hook_def Let_def)
  have example: "totalSwapped (run w mounted_hook
         [Report ((failed_swap [])\<lparr>success := True, error := None, amountIn := ''5.00''\<rparr>),
          Report ((failed_swap ''Swap failed'')\<lparr>amountIn := ''3.00''\<rparr>),
          Report ((failed_swap [])\<lparr>success := True, error := None, amountIn := ''2.00''\<rparr>)])
       = Num 7"
    by (simp add: run_def totalSwapped_handleOnchainKitSwap failed_swap_def
        parseFloat_5_00 parseFloat_2_00 to_double_small_integers m)
  show ?thesis
    using start stop reconf example totalSwapped_reports [of w s rs]
    by (simp add: totalSwapped_handleOnchainKitSwap)
qed

text \<open>
  C10. \<open>swapTokens\<close> exchanges the two tokens, leaves the other fields of the
  configuration as they are, and undoes itself.
\<close>

theorem swapTokens_involution:
  "sourceToken (config (swapTokens s)) = targetToken (config s)
   \<and> targetToken (config (swapTokens s)) = sourceToken (config s)
   \<and> frequency (config (swapTokens s)) = frequency (config s)
   \<and> percentage (config (swapTokens s)) = percentage (config s)
   \<and> isActive (config (swapTokens s)) = isActive (config s)
   \<and> nextSwapIn (config (swapTokens s)) = nextSwapIn (config s)
   \<and> swapTokens (swapTokens s) = s"
  by (simp add: swapTokens_def)

section \<open>The start guard\<close>

lemma fire_no_intervals: "intervals s = [] \<Longrightarrow> fire i s = s"
  by (simp add: fire_def)

lemma mounted_hook_paused:
  "isActive (config mounted_hook) = False \<and> nextSwapIn (config mounted_hook) = 0
   \<and> intervals mounted_hook = [] \<and> inFlight mounted_hook = []
   \<and> swapHistory mounted_hook = []"
  by (simp add: mounted_hook_def frequency_effect_def initial_hook_def Let_def)

text \<open>
  C9. \<open>startDCA\<close> returns at once, leaving the state as it is (no interval
  armed, no attempt begun), when the configuration it sees is active or when
  the balance parses to 0; with no interval armed no attempt follows.
\<close>

theorem startDCA_guarded:
  assumes "isActive (c_config c) \<or> strict_eq (parseFloat (or_zero (c_balance c))) (Num 0)"
  shows "startDCA c s = s \<and> (intervals s = [] \<longrightarrow> fire i (startDCA c s) = s)"
proof -
  have "startDCA c s = s"
    using assms by (auto simp add: startDCA_def Let_def)
  then show ?thesis
    by (simp add: fire_no_intervals)
qed

theorem startDCA_guarded_witness:
  "strict_eq (parseFloat (or_zero (c_balance (render empty_wallet mounted_hook)))) (Num 0)
   \<and> step empty_wallet mounted_hook Start = mounted_hook
   \<and> isActive (config (step empty_wallet mounted_hook Start)) = False
   \<and> nextSwapIn (config (step empty_wallet mounted_hook Start)) = 0
   \<and> intervals (step empty_wallet mounted_hook Start) = []
   \<and> inFlight (step empty_wallet mounted_hook Start) = []
   \<and> fire 2 (step empty_wallet mounted_hook Start) = mounted_hook"
proof -
  have h: "strict_eq (parseFloat (or_zero (c_balance (render empty_wallet mounted_hook)))) (Num 0)"
    by (simp add: render_def empty_wallet_def funded_wallet_def or_zero_def parseFloat_0_00)
  have "startDCA (render empty_wallet mounted_hook) mounted_hook = mounted_hook
        \<and> (intervals mounted_hook = [] \<longrightarrow>
             fire 2 (startDCA (render empty_wallet mounted_hook) mounted_hook) = mounted_hook)"
    using h by (intro startDCA_guarded) simp
  then show ?thesis
    using h mounted_hook_paused by (simp add: fire_no_intervals)
qed

section \<open>Attempts with one token on both sides\<close>







section \<open>The fallback of the swap service\<close>

lemma enhancedSimulation_returns:
  "\<exists>sim. enhancedSimulation sio a b x = Inr sim"
  by (simp add: enhancedSimulation_def Let_def)

lemma enhancedSimulation_tags:
  assumes "enhancedSimulation sio a b x = Inr sim"
  shows "isReal sim \<noteq> Some True"
    and "success sim \<Longrightarrow> isReal sim = Some False \<and> isEnhancedSimulation sim = Some True"
    and "\<not> success sim \<Longrightarrow> isReal sim = None \<and> isEnhancedSimulation sim = None
          \<and> error sim = Some ''Simulated network congestion''"
  using assms by (auto simp add: enhancedSimulation_def Let_def split: if_splits)

lemma twentieth: "to_double (5 / 100) = Num (3602879701896397 / 2 ^ 56)"
  by (simp add: to_double_def fl_eval)

lemma draws:
  "jgt (Num (1 / 2)) (to_double (5 / 100))" "\<not> jgt (Num (1 / 32)) (to_double (5 / 100))"
  unfolding twentieth by (simp_all add: jgt_def)

lemma refused_try:
  "executeRealSwap_try DEFAULT_SOURCE_TOKEN DEFAULT_TARGET_TOKEN ''1.00'' addr refused_io
     = Inl (Error ''insufficient funds for gas'')"
  by (simp add: executeRealSwap_try_def refused_io_def BASE_TOKENS_def TOKEN_ADDRESSES_def
      DEFAULT_SOURCE_TOKEN_def DEFAULT_TARGET_TOKEN_def has_token_address_def
      parseFloat_1_00 jle_def Let_def)

lemma refused_message:
  "errorMessage (Error ''insufficient funds for gas'') = ''Insufficient balance or liquidity''"
  by (simp add: errorMessage_def lower_ascii_def Let_def)

text \<open>
  C8, as stated, fails: when the wallet refuses the transaction and the
  simulation draws its congestion, the result returned has the note but is not
  tagged as simulated: it has neither \<open>isReal\<close> nor \<open>isEnhancedSimulation\<close>.
\<close>

theorem simulated_failure_is_untagged:
  "executeRealSwap_try DEFAULT_SOURCE_TOKEN DEFAULT_TARGET_TOKEN ''1.00''
       ''0x1111111111111111111111111111111111111111'' refused_io
     = Inl (Error ''insufficient funds for gas'')
   \<and> success (executeRealSwap DEFAULT_SOURCE_TOKEN DEFAULT_TARGET_TOKEN ''1.00''
       ''0x1111111111111111111111111111111111111111'' refused_io congested_sim) = False
   \<and> error (executeRealSwap DEFAULT_SOURCE_TOKEN DEFAULT_TARGET_TOKEN ''1.00''
       ''0x1111111111111111111111111111111111111111'' refused_io congested_sim)
     = Some ''Simulated network congestion''
   \<and> note_s (executeRealSwap DEFAULT_SOURCE_TOKEN DEFAULT_TARGET_TOKEN ''1.00''
       ''0x1111111111111111111111111111111111111111'' refused_io congested_sim)
     = Some ''Smart wallet swap failed: Insufficient balance or liquidity. Showing simulation.''
   \<and> isReal (executeRealSwap DEFAULT_SOURCE_TOKEN DEFAULT_TARGET_TOKEN ''1.00''
       ''0x1111111111111111111111111111111111111111'' refused_io congested_sim) = None
   \<and> isEnhancedSimulation (executeRealSwap DEFAULT_SOURCE_TOKEN DEFAULT_TARGET_TOKEN ''1.00''
       ''0x1111111111111111111111111111111111111111'' refused_io congested_sim) = None"
proof -
  have s: "enhancedSimulation congested_sim a b x =
      Inr \<lparr>success = False, txHash = None, error = Some ''Simulated network congestion'',
           amountIn = toFixed 2 x, amountOut = ''0'', price = None,
           isReal = None, isEnhancedSimulation = None, note_s = None\<rparr>" for a b x
    using draws(2)
    by (simp add: enhancedSimulation_def congested_sim_def working_sim_def Let_def)
  show ?thesis
    by (simp add: executeRealSwap_def refused_try refused_message s Let_def)
qed

text \<open>
  C8, amended. When the \<open>try\<close> block of \<open>executeRealSwap\<close> throws, the
  simulation is called once; it always returns, and its result is returned with
  the note "Smart wallet swap failed: ... Showing simulation." put in. The
  result is never tagged as real: a successful simulation is tagged
  \<open>isReal = false\<close> and \<open>isEnhancedSimulation = true\<close>, and a simulated
  failure has the error "Simulated network congestion" and no tag. The failure
  of the inner \<open>catch\<close> is not returned, since the simulation does not throw.
\<close>

theorem executeRealSwap_fallback:
  assumes "executeRealSwap_try src tgt amt addr io = Inl e"
  shows "\<exists>sim. enhancedSimulation sio src tgt (parseFloat amt) = Inr sim
           \<and> executeRealSwap src tgt amt addr io sio
               = sim\<lparr>note_s := Some (''Smart wallet swap failed: '' @ errorMessage e
                                      @ ''. Showing simulation.'')\<rparr>
           \<and> isReal (executeRealSwap src tgt amt addr io sio) \<noteq> Some True
           \<and> (success (executeRealSwap src tgt amt addr io sio) \<longrightarrow>
                isReal (executeRealSwap src tgt amt addr io sio) = Some False
                \<and> isEnhancedSimulation (executeRealSwap src tgt amt addr io sio) = Some True)
           \<and> (\<not> success (executeRealSwap src tgt amt addr io sio) \<longrightarrow>
                isReal (executeRealSwap src tgt amt addr io sio) = None
                \<and> isEnhancedSimulation (executeRealSwap src tgt amt addr io sio) = None
                \<and> error (executeRealSwap src tgt amt addr io sio)
                    = Some ''Simulated network congestion'')"
proof -
  obtain sim where sim: "enhancedSimulation sio src tgt (parseFloat amt) = Inr sim"
    using enhancedSimulation_returns by blast
  have r: "executeRealSwap src tgt amt addr io sio
        = sim\<lparr>note_s := Some (''Smart wallet swap failed: '' @ errorMessage e
                               @ ''. Showing simulation.'')\<rparr>"
    using assms sim by (simp add: executeRealSwap_def Let_def)
  show ?thesis
    using sim r enhancedSimulation_tags [OF sim] by (intro exI [of _ sim]) simp
qed

theorem executeRealSwap_fallback_witness:
  "executeRealSwap_try DEFAULT_SOURCE_TOKEN DEFAULT_TARGET_TOKEN ''1.00''
       ''0x1111111111111111111111111111111111111111'' refused_io
     = Inl (Error ''insufficient funds for gas'')
   \<and> success (executeRealSwap DEFAULT_SOURCE_TOKEN DEFAULT_TARGET_TOKEN ''1.00''
       ''0x1111111111111111111111111111111111111111'' refused_io working_sim)
   \<and> note_s (executeRealSwap DEFAULT_SOURCE_TOKEN DEFAULT_TARGET_TOKEN ''1.00''
       ''0x1111111111111111111111111111111111111111'' refused_io working_sim)
     = Some ''Smart wallet swap failed: Insufficient balance or liquidity. Showing simulation.''
   \<and> isReal (executeRealSwap DEFAULT_SOURCE_TOKEN DEFAULT_TARGET_TOKEN ''1.00''
       ''0x1111111111111111111111111111111111111111'' refused_io working_sim) = Some False
   \<and> isEnhancedSimulation (executeRealSwap DEFAULT_SOURCE_TOKEN DEFAULT_TARGET_TOKEN ''1.00''
       ''0x1111111111111111111111111111111111111111'' refused_io working_sim) = Some True"
proof -
  let ?a = "''0x1111111111111111111111111111111111111111''"
  let ?r = "executeRealSwap DEFAULT_SOURCE_TOKEN DEFAULT_TARGET_TOKEN ''1.00'' ?a
      refused_io working_sim"
  note t = refused_try [of ?a]
  obtain sim where sim: "enhancedSimulation working_sim DEFAULT_SOURCE_TOKEN
        DEFAULT_TARGET_TOKEN (parseFloat ''1.00'') = Inr sim"
      and r: "?r = sim\<lparr>note_s := Some (''Smart wallet swap failed: ''
            @ errorMessage (Error ''insufficient funds for gas'') @ ''. Showing simulation.'')\<rparr>"
      and tag: "success ?r \<longrightarrow> isReal ?r = Some False \<and> isEnhancedSimulation ?r = Some True"
    using executeRealSwap_fallback [OF t, of working_sim] by blast
  have "success sim"
    using sim draws(1)
    by (auto simp add: enhancedSimulation_def working_sim_def Let_def)
  then have ok: "success ?r"
    unfolding r by simp
  have n: "note_s ?r
      = Some ''Smart wallet swap failed: Insufficient balance or liquidity. Showing simulation.''"
    unfolding r by (simp add: refused_message)
  show ?thesis
    using t ok n tag by simp
qed

section \<open>Stopping and firing while an attempt is outstanding\<close>

lemma fast_hook_fields:
  "config fast_hook =
      \<lparr>sourceToken = DEFAULT_SOURCE_TOKEN, targetToken = DEFAULT_TARGET_TOKEN,
       frequency = 1000, percentage = 1, isActive = False, nextSwapIn = 0\<rparr>"
  "isExecutingSwap fast_hook = False" "intervalRef fast_hook = None"
  "countdownRef fast_hook = None" "intervals fast_hook = []" "nextTimerId fast_hook = 1"
  "inFlight fast_hook = []" "swapHistory fast_hook = []"
proof -
  have f: "calculateFrequency 100 Seconds = 1000"
    using calculateFrequency_integer [OF seconds_tier, of 100] by simp
  show "config fast_hook =
      \<lparr>sourceToken = DEFAULT_SOURCE_TOKEN, targetToken = DEFAULT_TARGET_TOKEN,
       frequency = 1000, percentage = 1, isActive = False, nextSwapIn = 0\<rparr>"
    "isExecutingSwap fast_hook = False" "intervalRef fast_hook = None"
    "countdownRef fast_hook = None" "intervals fast_hook = []" "nextTimerId fast_hook = 1"
    "inFlight fast_hook = []" "swapHistory fast_hook = []"
    by (simp_all add: fast_hook_def handleSliderChange_def handleTierChange_def
        mounted_hook_def frequency_effect_def initial_hook_def Let_def f)
qed

lemma started:
  "run funded_wallet fast_hook [Start] =
     fast_hook\<lparr>config := (config fast_hook)\<lparr>isActive := True, nextSwapIn := 1000\<rparr>,
        intervalRef := Some 2, countdownRef := Some 1,
        intervals := [(1, 100, CountdownTick),
                      (2, 1000, RunSwap (render funded_wallet fast_hook))],
        nextTimerId := 3\<rparr>"
  by (simp add: run_def startDCA_def render_def funded_wallet_def or_zero_def
      parseFloat_100_00 startCountdown_def setInterval_def clearInterval_def Let_def
      fast_hook_fields)

lemma first_attempt_request:
  "executeSingleSwap_try (render funded_wallet fast_hook) = Inr first_request"
proof -
  note p = parseFloat_100_00
  note c = fast_hook_fields(1)
  have d: "address DEFAULT_SOURCE_TOKEN \<noteq> address DEFAULT_TARGET_TOKEN"
    by (simp add: DEFAULT_SOURCE_TOKEN_def DEFAULT_TARGET_TOKEN_def BASE_TOKENS_def)
  show ?thesis
    using d
    by (simp add: executeSingleSwap_try_def render_def funded_wallet_def or_zero_def p c
        validateRealSwap_def toFixed_2_1 first_request_def Let_def
        one_percent_of_100 hundredth_is_small jgt_def)
qed

text \<open>
  The callback of the interval is the \<open>runSwap\<close> of the render in which
  \<open>startDCA\<close> was called. The flag it tests is the one of that render, so each
  firing begins a call of \<open>executeRealSwap\<close>, whatever the state is by then.
\<close>

lemma runSwap_of_start_render:
  "runSwap (render funded_wallet fast_hook) s =
     s\<lparr>isExecutingSwap := True, inFlight := inFlight s @ [(FromRunSwap, first_request)]\<rparr>"
proof -
  have g: "\<not> c_isExecutingSwap (render funded_wallet fast_hook)"
    "c_address (render funded_wallet fast_hook)
       = Some ''0x1111111111111111111111111111111111111111''"
    "c_sendTransaction (render funded_wallet fast_hook)"
    by (simp_all add: render_def funded_wallet_def fast_hook_fields)
  show ?thesis
    using g by (simp add: runSwap_def executeSingleSwap_begin_def first_attempt_request Let_def)
qed

lemma fire_2_started:
  "intervals s = intervals (run funded_wallet fast_hook [Start]) \<Longrightarrow>
     fire 2 s = s\<lparr>isExecutingSwap := True,
                  inFlight := inFlight s @ [(FromRunSwap, first_request)]\<rparr>"
  by (simp add: fire_def started runSwap_of_start_render)

text \<open>
  The same holds for the tokens: a schedule goes on swapping the tokens of the
  render that started it. After \<open>updateTokens\<close> has put USDC on both sides, a
  firing of the running schedule still calls \<open>executeRealSwap\<close> for USDC and
  ETH.
\<close>

lemma schedule_keeps_tokens_of_its_start:
  "inFlight (run funded_wallet fast_hook
       [Start, UpdateTokens (BASE_TOKENS ! 0) (BASE_TOKENS ! 0), Fire 2])
     = [(FromRunSwap, first_request)]"
proof -
  let ?s1 = "run funded_wallet fast_hook [Start]"
  let ?s2 = "updateTokens (BASE_TOKENS ! 0) (BASE_TOKENS ! 0) ?s1"
  have r: "run funded_wallet fast_hook
       [Start, UpdateTokens (BASE_TOKENS ! 0) (BASE_TOKENS ! 0), Fire 2] = fire 2 ?s2"
    by (simp add: run_def)
  have i: "inFlight ?s2 = []"
    by (simp add: updateTokens_def started fast_hook_fields)
  have "fire 2 ?s2 = ?s2\<lparr>isExecutingSwap := True,
      inFlight := inFlight ?s2 @ [(FromRunSwap, first_request)]\<rparr>"
    by (rule fire_2_started) (simp add: updateTokens_def)
  then show ?thesis
    unfolding r using i by simp
qed

text \<open>
  What the guard does do: a call that sees the flag set returns the failure
  "Swap already in progress" and changes nothing, so a call of \<open>executeSwap\<close>
  of the latest render is refused while the flag is set; and the flag is
  cleared when the awaited call settles, whatever it settles with.
\<close>

lemma guard_refuses_when_flag_seen:
  "c_isExecutingSwap c \<Longrightarrow>
     executeSingleSwap_begin c s = (Returned (failed_swap ''Swap already in progress''), s)"
  by (simp add: executeSingleSwap_begin_def)

lemma executeSwap_refused_while_executing:
  "isExecutingSwap s \<Longrightarrow> step w s ExecuteSwap = s"
  by (simp add: executeSwap_def render_def guard_refuses_when_flag_seen)

lemma guard_released_on_settle:
  "isExecutingSwap (snd (executeSingleSwap_resume settled s)) = False"
  by (simp add: executeSingleSwap_resume_def Let_def split: sum.splits)

text \<open>
  C2. The guard does not serialize the attempts of the interval: after
  \<open>startDCA\<close>, a first firing of the interval leaves one call of
  \<open>executeRealSwap\<close> outstanding and \<open>isExecutingSwap\<close> set; a second firing
  before it settles begins another call, and two are outstanding.
\<close>

theorem interval_attempts_overlap:
  "isExecutingSwap (run funded_wallet fast_hook [Start, Fire 2])
   \<and> inFlight (run funded_wallet fast_hook [Start, Fire 2]) = [(FromRunSwap, first_request)]
   \<and> inFlight (run funded_wallet fast_hook [Start, Fire 2, Fire 2])
       = [(FromRunSwap, first_request), (FromRunSwap, first_request)]
   \<and> swapHistory (run funded_wallet fast_hook [Start, Fire 2, Fire 2]) = []"
proof -
  let ?s1 = "run funded_wallet fast_hook [Start]"
  note m = fast_hook_fields(7,8)
  have i: "inFlight ?s1 = []" "swapHistory ?s1 = []"
    by (simp_all add: started m)
  have r2: "run funded_wallet fast_hook [Start, Fire 2] = fire 2 ?s1"
    by (simp add: run_def)
  have r3: "run funded_wallet fast_hook [Start, Fire 2, Fire 2] = fire 2 (fire 2 ?s1)"
    by (simp add: run_def)
  have f1: "fire 2 ?s1 = ?s1\<lparr>isExecutingSwap := True,
      inFlight := inFlight ?s1 @ [(FromRunSwap, first_request)]\<rparr>"
    by (rule fire_2_started) simp
  have f2: "fire 2 (fire 2 ?s1) = (fire 2 ?s1)\<lparr>isExecutingSwap := True,
      inFlight := inFlight (fire 2 ?s1) @ [(FromRunSwap, first_request)]\<rparr>"
    by (rule fire_2_started) (simp add: f1)
  show ?thesis
    unfolding r2 r3 f2 unfolding f1 using i by simp
qed

text \<open>
  C1. Stopping while an attempt is outstanding: the intervals are cleared and
  the countdown is 0 after \<open>stopDCA\<close>, and when the attempt settles its result
  is put into the history and no interval is armed; but \<open>runSwap\<close> then sets
  the countdown to the frequency again, although the schedule is not active.
\<close>

theorem stop_then_settle_sets_countdown:
  "nextSwapIn (config (run funded_wallet fast_hook [Start, Fire 2, Stop])) = 0
   \<and> inFlight (run funded_wallet fast_hook [Start, Fire 2, Stop]) = [(FromRunSwap, first_request)]
   \<and> swapHistory (run funded_wallet fast_hook [Start, Fire 2, Stop, Settle 0 (Inr real_result)])
       = [real_result]
   \<and> isActive (config (run funded_wallet fast_hook
         [Start, Fire 2, Stop, Settle 0 (Inr real_result)])) = False
   \<and> intervals (run funded_wallet fast_hook
         [Start, Fire 2, Stop, Settle 0 (Inr real_result)]) = []
   \<and> inFlight (run funded_wallet fast_hook
         [Start, Fire 2, Stop, Settle 0 (Inr real_result)]) = []
   \<and> nextSwapIn (config (run funded_wallet fast_hook
         [Start, Fire 2, Stop, Settle 0 (Inr real_result)])) = 1000"
proof -
  let ?s1 = "run funded_wallet fast_hook [Start]"
  have f1: "fire 2 ?s1 = ?s1\<lparr>isExecutingSwap := True,
      inFlight := inFlight ?s1 @ [(FromRunSwap, first_request)]\<rparr>"
    by (rule fire_2_started) simp
  have r3: "run funded_wallet fast_hook [Start, Fire 2, Stop] = stopDCA (fire 2 ?s1)"
    by (simp add: run_def)
  have r4: "run funded_wallet fast_hook [Start, Fire 2, Stop, Settle 0 (Inr real_result)]
      = settle 0 (Inr real_result) (stopDCA (fire 2 ?s1))"
    by (simp add: run_def)
  have m: "inFlight fast_hook = []" "swapHistory fast_hook = []"
    "frequency (config fast_hook) = 1000"
    by (simp_all add: fast_hook_fields)
  have stopped: "stopDCA (fire 2 ?s1) =
      fast_hook\<lparr>config := (config fast_hook)\<lparr>isActive := False, nextSwapIn := 0\<rparr>,
        intervalRef := None, countdownRef := None, intervals := [], nextTimerId := 3,
        isExecutingSwap := True, inFlight := [(FromRunSwap, first_request)]\<rparr>"
    unfolding f1 using m by (simp add: started stopDCA_def clearInterval_def Let_def)
  have settled: "settle 0 (Inr real_result) (stopDCA (fire 2 ?s1)) =
      fast_hook\<lparr>config := (config fast_hook)\<lparr>isActive := False, nextSwapIn := 1000\<rparr>,
        intervalRef := None, countdownRef := None, intervals := [], nextTimerId := 3,
        isExecutingSwap := False, inFlight := [], swapHistory := [real_result],
        totalSwapped := jadd (totalSwapped fast_hook) (parseFloat ''1.00''),
        refreshTimeouts := Suc (refreshTimeouts fast_hook)\<rparr>"
    unfolding stopped using m
    by (simp add: settle_def executeSingleSwap_resume_def handleOnchainKitSwap_def
        runSwap_finish_def real_result_def Let_def)
  show ?thesis
    unfolding r3 r4 settled unfolding stopped by simp
qed

end
